theory Spec2Isabelle
  imports Complex_Main
begin

section \<open>CPCV2: the patch-grid latent pipeline of \<open>cpc_module.py\<close>\<close>

subsection \<open>Errors\<close>

text \<open>
  The exceptions the modelled Python can raise. Every raise of the source is a branch
  returning \<open>Inl\<close> of one of them; \<open>andthen\<close> runs the next statement when the
  previous one did not raise.
\<close>

datatype error =
  ZeroDivisionError | RuntimeError | IndexError | ValueError | AttributeError
  | TypeError | KeyError

definition andthen :: "error + 'a \<Rightarrow> ('a \<Rightarrow> error + 'b) \<Rightarrow> error + 'b" where
  "andthen r f = (case r of Inl e \<Rightarrow> Inl e | Inr v \<Rightarrow> f v)"

subsection \<open>Tensors and autograd history\<close>

text \<open>
  What autograd remembers about a value: nothing (a constant, a detached value or a
  value computed with gradients disabled), that it is the parameters of a named module,
  or the operation that produced it together with the histories of its inputs.
\<close>

datatype history = NoHistory | Parameters string | Backward string "history list"

fun requires_grad :: "history \<Rightarrow> bool" where
  "requires_grad NoHistory = False"
| "requires_grad _ = True"

text \<open>
  The history of the result of an operation: recorded only when gradient mode is on
  and some input requires a gradient.
\<close>

definition track :: "bool \<Rightarrow> string \<Rightarrow> history list \<Rightarrow> history" where
  "track grad_enabled name inputs =
     (if grad_enabled \<and> list_ex requires_grad inputs then Backward name inputs else NoHistory)"

text \<open>
  Backpropagation by the chain rule: how much a value with history \<open>h\<close> changes with
  the parameters \<open>p\<close>, where \<open>d f hs\<close> lists the local partial derivatives of the
  operation \<open>f\<close> in each of its inputs. Addition has the local derivatives 1. A value
  without history contributes nothing.
\<close>

fun grad :: "(string \<Rightarrow> history list \<Rightarrow> real list) \<Rightarrow> string \<Rightarrow> history \<Rightarrow> real" where
  "grad d p NoHistory = 0"
| "grad d p (Parameters q) = (if p = q then 1 else 0)"
| "grad d p (Backward f hs) =
     (if f = ''add'' then sum_list (map (grad d p) hs)
      else sum_list (map2 (*) (d f hs) (map (grad d p) hs)))"

text \<open>
  A torch tensor, as far as the module looks at it: its shape, its elements in
  row-major (contiguous) order and its autograd history. The element type is left open.
  A tensor is well formed when it has as many elements as its shape says.
\<close>

record 'a tensor =
  shape :: "nat list"
  data :: "'a list"
  grad_fn :: history

record 'a scalar =
  val :: 'a
  hist :: history

definition numel :: "'a tensor \<Rightarrow> nat" where
  "numel t = prod_list (shape t)"

definition wf_tensor :: "'a tensor \<Rightarrow> bool" where
  "wf_tensor t = (length (data t) = numel t)"

text \<open>\<open>torch.zeros(sizes)\<close>.\<close>

definition zeros :: "nat list \<Rightarrow> ('a::zero) tensor" where
  "zeros sizes = \<lparr>shape = sizes, data = replicate (prod_list sizes) 0, grad_fn = NoHistory\<rparr>"

text \<open>\<open>t.detach()\<close>: the same tensor without history.\<close>

definition detach :: "'a tensor \<Rightarrow> 'a tensor" where
  "detach t = t\<lparr>grad_fn := NoHistory\<rparr>"

text \<open>\<open>t.size(i)\<close> for a non-negative \<open>i\<close>: an IndexError beyond the last dimension.\<close>

definition size_at :: "'a tensor \<Rightarrow> nat \<Rightarrow> error + nat" where
  "size_at t i = (if i < length (shape t) then Inr (shape t ! i) else Inl IndexError)"

text \<open>
  \<open>t.squeeze(-1)\<close>: the last dimension is dropped when it is 1, and only then; the
  elements stay as they are. A tensor without dimensions is returned unchanged.
  The shape operations (\<open>squeeze\<close>, \<open>view\<close>, \<open>reshape\<close>, \<open>permute\<close>, indexing) rearrange
  elements; their result keeps the history of their input.
\<close>

definition squeeze_last :: "'a tensor \<Rightarrow> 'a tensor" where
  "squeeze_last t =
     (if shape t \<noteq> [] \<and> last (shape t) = 1 then t\<lparr>shape := butlast (shape t)\<rparr> else t)"

text \<open>
  \<open>t.view(*sizes)\<close> on a contiguous tensor, where one size may be \<open>-1\<close>. torch takes
  the product of the given sizes; without a \<open>-1\<close> it must be the number of elements;
  with one \<open>-1\<close> it must be positive and divide the number of elements, and the
  quotient fills the \<open>-1\<close>. Everything else is a RuntimeError. On a contiguous tensor
  \<open>reshape\<close> is \<open>view\<close>.
\<close>

definition view :: "'a tensor \<Rightarrow> int list \<Rightarrow> error + 'a tensor" where
  "view t sizes =
     (let known = filter (\<lambda>s. s \<noteq> - 1) sizes;
          newsize = nat (prod_list known)
      in if list_ex (\<lambda>s. s < - 1) sizes \<or> length known + 1 < length sizes
         then Inl RuntimeError
         else if length known = length sizes
         then (if numel t = newsize
               then Inr (t\<lparr>shape := map nat sizes\<rparr>) else Inl RuntimeError)
         else if 0 < newsize \<and> numel t mod newsize = 0
         then Inr (t\<lparr>shape := map (\<lambda>s. if s = - 1 then numel t div newsize else nat s) sizes\<rparr>)
         else Inl RuntimeError)"

text \<open>
  \<open>t.permute(0, 2, 1).contiguous()\<close>: only for three dimensions (RuntimeError
  otherwise). The result of shape \<open>(a, c, b)\<close> holds at \<open>[i][k][j]\<close> what \<open>t\<close> of shape
  \<open>(a, b, c)\<close> holds at \<open>[i][j][k]\<close>, and \<open>contiguous\<close> lays it out row-major again.
\<close>

definition regrouped :: "'a list \<Rightarrow> nat \<Rightarrow> nat \<Rightarrow> nat \<Rightarrow> 'a list" where
  "regrouped xs a b c =
     [xs ! ((i * b + j) * c + k). i \<leftarrow> [0..<a], k \<leftarrow> [0..<c], j \<leftarrow> [0..<b]]"

definition permute_021 :: "'a tensor \<Rightarrow> error + 'a tensor" where
  "permute_021 t =
     (case shape t of
        [a, b, c] \<Rightarrow> Inr (t\<lparr>shape := [a, c, b], data := regrouped (data t) a b c\<rparr>)
      | _ \<Rightarrow> Inl RuntimeError)"

text \<open>
  Reading one element, \<open>t[i0, i1, ...]\<close> with non-negative indices, one per dimension:
  the row-major offset, and an IndexError out of range.
\<close>

fun offset :: "nat list \<Rightarrow> nat list \<Rightarrow> nat \<Rightarrow> nat" where
  "offset (d # ds) (i # is) acc = offset ds is (acc * d + i)"
| "offset _ _ acc = acc"

definition item :: "'a tensor \<Rightarrow> nat list \<Rightarrow> error + 'a" where
  "item t idx =
     (if length idx = length (shape t) \<and> list_all2 (<) idx (shape t)
      then Inr (data t ! offset (shape t) idx 0) else Inl IndexError)"

text \<open>\<open>t[i]\<close>: the \<open>i\<close>-th slice along the first dimension.\<close>

definition select0 :: "'a tensor \<Rightarrow> nat \<Rightarrow> error + 'a tensor" where
  "select0 t i =
     (case shape t of
        [] \<Rightarrow> Inl IndexError
      | d # ds \<Rightarrow>
          if i < d
          then Inr (t\<lparr>shape := ds, data := take (prod_list ds) (drop (i * prod_list ds) (data t))\<rparr>)
          else Inl IndexError)"

subsection \<open>Python values\<close>

text \<open>
  The values that batches and encoder outputs are made of: a tensor, or a list or
  tuple of values. Labels are tensors as well.
\<close>

datatype 'a pyobj = Tensor "'a tensor" | Tuple "'a pyobj list"

text \<open>\<open>x[i]\<close> for a non-negative \<open>i\<close>.\<close>

definition getitem :: "'a pyobj \<Rightarrow> nat \<Rightarrow> error + 'a pyobj" where
  "getitem x i =
     (case x of
        Tuple xs \<Rightarrow> if i < length xs then Inr (xs ! i) else Inl IndexError
      | Tensor t \<Rightarrow> andthen (select0 t i) (\<lambda>s. Inr (Tensor s)))"

text \<open>
  \<open>a, b = x\<close>: a ValueError unless iterating \<open>x\<close> yields exactly two values; a tensor
  is iterated along its first dimension, and one without dimensions cannot be iterated
  (TypeError).
\<close>

definition unpack2 :: "'a pyobj \<Rightarrow> error + ('a pyobj \<times> 'a pyobj)" where
  "unpack2 x =
     (case x of
        Tuple xs \<Rightarrow> (case xs of [a, b] \<Rightarrow> Inr (a, b) | _ \<Rightarrow> Inl ValueError)
      | Tensor t \<Rightarrow>
          (case shape t of
             [] \<Rightarrow> Inl TypeError
           | d # ds \<Rightarrow>
               if d = 2
               then andthen (select0 t 0) (\<lambda>a. andthen (select0 t 1) (\<lambda>b. Inr (Tensor a, Tensor b)))
               else Inl ValueError))"

text \<open>A tensor method (\<open>.size\<close>, \<open>.squeeze\<close>) called on a list or tuple: AttributeError.\<close>

definition as_tensor :: "'a pyobj \<Rightarrow> error + 'a tensor" where
  "as_tensor x = (case x of Tensor t \<Rightarrow> Inr t | Tuple _ \<Rightarrow> Inl AttributeError)"

text \<open>Every tensor of a value gets the history \<open>h\<close>.\<close>

fun with_history :: "history \<Rightarrow> 'a pyobj \<Rightarrow> 'a pyobj" where
  "with_history h (Tensor t) = Tensor (t\<lparr>grad_fn := h\<rparr>)"
| "with_history h (Tuple xs) = Tuple (map (with_history h) xs)"

subsection \<open>Grid reassembly\<close>

text \<open>
  \<open>int(math.sqrt(n))\<close> for a non-negative integer \<open>n\<close>: the largest \<open>k\<close> with
  \<open>k * k \<le> n\<close>. (The float square root is exact enough for this below \<open>2^52\<close>, far
  beyond any patch count.)
\<close>

fun sqrt_below :: "nat \<Rightarrow> nat \<Rightarrow> nat" where
  "sqrt_below n 0 = 0"
| "sqrt_below n (Suc k) = (if Suc k * Suc k \<le> n then Suc k else sqrt_below n k)"

definition int_sqrt :: "nat \<Rightarrow> nat" where
  "int_sqrt n = sqrt_below n n"

text \<open>
  \<open>CPCV2.__recover_z_shape(Z, b)\<close>:
  \<^verbatim>\<open>
    Z = Z.squeeze(-1)
    nb_feats = int(math.sqrt(Z.size(0) // b))
    Z = Z.view(b, -1, Z.size(1))
    Z = Z.permute(0, 2, 1).contiguous()
    Z = Z.view(b, -1, nb_feats, nb_feats)
    return Z
  \<close>
  \<open>//\<close> raises ZeroDivisionError for \<open>b = 0\<close>.
\<close>

definition recover_z_shape :: "'a tensor \<Rightarrow> nat \<Rightarrow> error + 'a tensor" where
  "recover_z_shape Z b =
     (let Z1 = squeeze_last Z in
      andthen (size_at Z1 0) (\<lambda>n0.
      andthen (if b = 0 then Inl ZeroDivisionError else Inr (int_sqrt (n0 div b))) (\<lambda>nb_feats.
      andthen (size_at Z1 1) (\<lambda>n1.
      andthen (view Z1 [int b, - 1, int n1]) (\<lambda>Z2.
      andthen (permute_021 Z2) (\<lambda>Z3.
      view Z3 [int b, - 1, int nb_feats, int nb_feats]))))))"

subsection \<open>The module and its collaborators\<close>

text \<open>
  An encoder network: a function from a patch batch to a tensor or to a sequence of
  tensors, which may raise. The \<open>encoder\<close> argument of the constructor is the name of
  a network or a module instance.
\<close>

type_synonym 'a network = "'a tensor \<Rightarrow> error + 'a pyobj"

datatype 'a encoder_arg = EncoderName string | EncoderModule "'a network"

text \<open>
  \<open>self.hparams.encoder != 'cpc_encoder'\<close> is \<open>\<not> names_cpc_encoder\<close>: a module
  instance is never equal to a string.
\<close>

fun names_cpc_encoder :: "'a encoder_arg \<Rightarrow> bool" where
  "names_cpc_encoder (EncoderName s) = (s = ''cpc_encoder'')"
| "names_cpc_encoder (EncoderModule _) = False"

text \<open>The encoder argument inside an f-string; how a module prints is left open.\<close>

fun str_of :: "'a encoder_arg \<Rightarrow> string" where
  "str_of (EncoderName s) = s"
| "str_of (EncoderModule _) = ''<module>''"

text \<open>The keyword arguments of \<open>CPCTask(...)\<close> and \<open>SSLEvaluator(...)\<close>.\<close>

record cpc_task_config =
  num_input_channels :: nat
  target_dim :: nat
  embed_scale :: real

record ssl_evaluator_config =
  n_input :: nat
  n_classes :: nat
  dropout_p :: real
  n_hidden :: nat

text \<open>
  What the module imports and only calls: the network constructors of
  \<open>init_encoder\<close>, the constructors of the contrastive task and of the probe (each
  gives the function the constructed module computes), \<open>F.cross_entropy\<close> and
  \<open>metrics.accuracy\<close>. They are parameters of the model.
\<close>

record 'a externals =
  CPCResNet101 :: "'a tensor \<Rightarrow> error + 'a network"
  torchvision_ssl_encoder :: "string \<Rightarrow> bool \<Rightarrow> error + 'a network"
  CPCTask :: "cpc_task_config \<Rightarrow> 'a tensor \<Rightarrow> error + 'a"
  SSLEvaluator :: "ssl_evaluator_config \<Rightarrow> 'a tensor \<Rightarrow> error + 'a tensor"
  cross_entropy :: "'a tensor \<Rightarrow> 'a pyobj \<Rightarrow> error + 'a"
  accuracy :: "'a tensor \<Rightarrow> 'a pyobj \<Rightarrow> error + 'a"

text \<open>
  The attributes of \<open>self\<close> that the methods read. \<open>hparams.dataset\<close> exists only
  when it was passed as a keyword argument or set from \<open>pretrained\<close>; \<open>info_nce\<close> and
  \<open>non_linear_evaluator\<close> exist once the constructor has assigned them. Reading a
  missing attribute is an AttributeError.
\<close>

record 'a cpcv2 =
  hp_encoder :: "'a encoder_arg"
  hp_dataset :: "string option"
  online_evaluator :: bool
  encoder :: "'a network"
  info_nce :: "('a tensor \<Rightarrow> error + 'a) option"
  non_linear_evaluator :: "('a tensor \<Rightarrow> error + 'a tensor) option"

text \<open>
  The calls of \<open>self.encoder\<close>, in order: the gradient mode of the call and the
  tensor passed. Each function returns the calls it made.
\<close>

type_synonym 'a calls = "(bool \<times> 'a tensor) list"

text \<open>
  Calling a module under gradient mode \<open>ge\<close>: the value is what the module computes,
  the history says that it came from the module's parameters and from the input.
\<close>

definition call_encoder :: "'a cpcv2 \<Rightarrow> bool \<Rightarrow> 'a tensor \<Rightarrow> error + ('a pyobj \<times> 'a calls)" where
  "call_encoder self ge x =
     andthen (encoder self x) (\<lambda>out.
     Inr (with_history (track ge ''encoder'' [Parameters ''encoder'', grad_fn x]) out, [(ge, x)]))"

definition call_info_nce :: "'a cpcv2 \<Rightarrow> bool \<Rightarrow> 'a tensor \<Rightarrow> error + 'a scalar" where
  "call_info_nce self ge Z =
     (case info_nce self of
        None \<Rightarrow> Inl AttributeError
      | Some f \<Rightarrow>
          andthen (f Z) (\<lambda>v.
          Inr \<lparr>val = v, hist = track ge ''info_nce'' [Parameters ''info_nce'', grad_fn Z]\<rparr>))"

definition call_non_linear_evaluator :: "'a cpcv2 \<Rightarrow> bool \<Rightarrow> 'a tensor \<Rightarrow> error + 'a tensor" where
  "call_non_linear_evaluator self ge z_in =
     (case non_linear_evaluator self of
        None \<Rightarrow> Inl AttributeError
      | Some f \<Rightarrow>
          andthen (f z_in) (\<lambda>t.
          Inr (t\<lparr>grad_fn := track ge ''non_linear_evaluator''
                   [Parameters ''non_linear_evaluator'', grad_fn z_in]\<rparr>)))"

text \<open>
  \<open>F.cross_entropy(mlp_preds, y)\<close>: differentiable in the predictions, not in the
  class labels. \<open>metrics.accuracy\<close> is not differentiable.
\<close>

definition call_cross_entropy :: "'a externals \<Rightarrow> bool \<Rightarrow> 'a tensor \<Rightarrow> 'a pyobj \<Rightarrow> error + 'a scalar" where
  "call_cross_entropy ext ge mlp_preds y =
     andthen (cross_entropy ext mlp_preds y) (\<lambda>v.
     Inr \<lparr>val = v, hist = track ge ''cross_entropy'' [grad_fn mlp_preds]\<rparr>)"

definition call_accuracy :: "'a externals \<Rightarrow> 'a tensor \<Rightarrow> 'a pyobj \<Rightarrow> error + 'a scalar" where
  "call_accuracy ext mlp_preds y =
     andthen (accuracy ext mlp_preds y) (\<lambda>v. Inr \<lparr>val = v, hist = NoHistory\<rparr>)"

text \<open>\<open>a + b\<close> on two losses.\<close>

definition add_scalars :: "bool \<Rightarrow> ('a::plus) scalar \<Rightarrow> 'a scalar \<Rightarrow> 'a scalar" where
  "add_scalars ge a b = \<lparr>val = val a + val b, hist = track ge ''add'' [hist a, hist b]\<rparr>"

subsection \<open>Forward pass and the shape probe of the constructor\<close>

text \<open>
  \<open>CPCV2.forward(img_1)\<close>:
  \<^verbatim>\<open>
    b, p, c, w, h = img_1.size()
    img_1 = img_1.view(-1, c, w, h)
    Z = self.encoder(img_1)
    if self.hparams.encoder != 'cpc_encoder':
        Z = Z[0]
    Z = self.__recover_z_shape(Z, b)
    return Z
  \<close>
  Unpacking a size of another length than 5 is a ValueError.
\<close>

definition forward :: "'a cpcv2 \<Rightarrow> bool \<Rightarrow> 'a pyobj \<Rightarrow> error + ('a tensor \<times> 'a calls)" where
  "forward self ge img_1 =
     andthen (as_tensor img_1) (\<lambda>img_1.
     (case shape img_1 of
        [b, p, c, w, h] \<Rightarrow>
          andthen (view img_1 [- 1, int c, int w, int h]) (\<lambda>img_1.
          andthen (call_encoder self ge img_1) (\<lambda>(Z, calls).
          andthen (if \<not> names_cpc_encoder (hp_encoder self) then getitem Z 0 else Inr Z) (\<lambda>Z.
          andthen (as_tensor Z) (\<lambda>Z.
          andthen (recover_z_shape Z b) (\<lambda>Z.
          Inr (Z, calls))))))
      | _ \<Rightarrow> Inl ValueError))"

text \<open>
  \<open>CPCV2.__compute_final_nb_c(patch_size)\<close>:
  \<^verbatim>\<open>
    dummy_batch = torch.zeros((2 * 49, 3, patch_size, patch_size))
    dummy_batch = self.encoder(dummy_batch)
    if self.hparams.encoder != 'cpc_encoder':
        dummy_batch = dummy_batch[0]
    dummy_batch = self.__recover_z_shape(dummy_batch, 2)
    b, c, h, w = dummy_batch.size()
    return c, h
  \<close>
\<close>

definition compute_final_nb_c :: "('a::zero) cpcv2 \<Rightarrow> bool \<Rightarrow> nat \<Rightarrow> error + ((nat \<times> nat) \<times> 'a calls)" where
  "compute_final_nb_c self ge patch_size =
     (let dummy_batch = zeros [2 * 49, 3, patch_size, patch_size] in
      andthen (call_encoder self ge dummy_batch) (\<lambda>(dummy_batch, calls).
      andthen (if \<not> names_cpc_encoder (hp_encoder self) then getitem dummy_batch 0
               else Inr dummy_batch) (\<lambda>dummy_batch.
      andthen (as_tensor dummy_batch) (\<lambda>dummy_batch.
      andthen (recover_z_shape dummy_batch 2) (\<lambda>dummy_batch.
      (case shape dummy_batch of
         [b, c, h, w] \<Rightarrow> Inr ((c, h), calls)
       | _ \<Rightarrow> Inl ValueError))))))"

subsection \<open>Pretrained weights\<close>

text \<open>
  The operands of \<open>in\<close> in \<open>load_pretrained\<close>: a string, a module instance, a set of
  strings, and the frozenset Python makes of a set. A set cannot be hashed.
\<close>

datatype pykey = Str string | ModuleObject | SetObject "string list" | FrozenSet "string list"

fun hashable :: "pykey \<Rightarrow> bool" where
  "hashable (SetObject _) = False"
| "hashable _ = True"

fun key_of :: "'a encoder_arg \<Rightarrow> pykey" where
  "key_of (EncoderName s) = Str s"
| "key_of (EncoderModule _) = ModuleObject"

text \<open>
  Looking a key up in a set of strings: the key is hashed (TypeError when it cannot
  be), and only an equal string is found. A module instance hashes by identity and
  equals no string; neither does a frozenset.
\<close>

definition set_lookup :: "string list \<Rightarrow> pykey \<Rightarrow> error + bool" where
  "set_lookup elems key =
     (if hashable key
      then Inr (case key of Str s \<Rightarrow> s \<in> set elems | _ \<Rightarrow> False)
      else Inl TypeError)"

text \<open>
  \<open>key in s\<close> for a set \<open>s\<close> of strings. Python's \<open>set.__contains__\<close> looks the key
  up; when that raises TypeError and the key is itself a set, it looks up
  \<open>frozenset(key)\<close> instead ("the elem argument to the \<open>__contains__()\<close>, \<open>remove()\<close>
  and \<open>discard()\<close> methods may be a set; to support searching for an equivalent
  frozenset, a temporary one is created from elem").
\<close>

definition set_contains :: "string list \<Rightarrow> pykey \<Rightarrow> error + bool" where
  "set_contains elems key =
     (case set_lookup elems key of
        Inr found \<Rightarrow> Inr found
      | Inl e \<Rightarrow> (case key of SetObject xs \<Rightarrow> set_lookup elems (FrozenSet xs) | _ \<Rightarrow> Inl e))"

text \<open>What \<open>load_pretrained\<close> does to the world: weights loaded, or a warning.\<close>

datatype effect = LoadedWeights string | Warned string

text \<open>
  \<open>CPCV2.load_pretrained(encoder)\<close>:
  \<^verbatim>\<open>
    available_weights = {'resnet18'}
    if encoder in available_weights:
        load_pretrained(self, f'CPCV2-{encoder}')
    elif available_weights not in available_weights:
        rank_zero_warn(f'{encoder} not yet available')
  \<close>
  (\<open>enc\<close> is the argument \<open>encoder\<close>.)
\<close>

definition load_pretrained :: "'a encoder_arg \<Rightarrow> error + effect list" where
  "load_pretrained enc =
     (let available_weights = [''resnet18''] in
      andthen (set_contains available_weights (key_of enc)) (\<lambda>found.
      if found then Inr [LoadedWeights (''CPCV2-'' @ str_of enc)]
      else andthen (set_contains available_weights (SetObject available_weights)) (\<lambda>self_found.
           if \<not> self_found then Inr [Warned (str_of enc @ '' not yet available'')]
           else Inr [])))"

subsection \<open>The constructor\<close>

text \<open>
  The arguments of \<open>CPCV2.__init__\<close> that the constructor computes with; \<open>dataset\<close>
  arrives among \<open>**kwargs\<close>, \<open>num_classes\<close> is read from the datamodule.
\<close>

record 'a init_args =
  arg_encoder :: "'a encoder_arg"
  arg_patch_size :: nat
  arg_patch_overlap :: nat
  arg_online_ft :: bool
  arg_amdim_task :: bool
  arg_pretrained :: "string option"
  kwarg_dataset :: "string option"
  datamodule_num_classes :: nat

text \<open>
  \<open>CPCV2.init_encoder()\<close>: the network a name stands for. The two-patch dummy batch
  goes to the constructor of the CPC network, not through \<open>self.encoder\<close>.
\<close>

definition init_encoder :: "('a::zero) externals \<Rightarrow> 'a init_args \<Rightarrow> string \<Rightarrow> error + 'a network" where
  "init_encoder ext args encoder_name =
     (let dummy_batch = zeros [2, 3, arg_patch_size args, arg_patch_size args] in
      if encoder_name = ''cpc_encoder'' then CPCResNet101 ext dummy_batch
      else torchvision_ssl_encoder ext encoder_name (arg_amdim_task args))"

text \<open>
  \<open>CPCV2.__init__\<close>, from \<open>self.online_evaluator = self.hparams.online_ft\<close> on:
  \<^verbatim>\<open>
    if pretrained:
        self.hparams.dataset = pretrained
        self.online_evaluator = True
    ...
    self.encoder = encoder
    if isinstance(encoder, str):
        self.encoder = self.init_encoder()
    c, h = self.__compute_final_nb_c(self.hparams.patch_size)
    self.info_nce = CPCTask(num_input_channels=c, target_dim=64, embed_scale=0.1)
    if self.online_evaluator:
        z_dim = c * h * h
        num_classes = self.datamodule.num_classes
        self.non_linear_evaluator = SSLEvaluator(
            n_input=z_dim, n_classes=num_classes, p=0.2, n_hidden=1024)
    if pretrained:
        self.load_pretrained(encoder)
  \<close>
  The result is the constructed module, the calls of \<open>self.encoder\<close> made on the way
  and the effects of \<open>load_pretrained\<close>.
\<close>

definition init :: "('a::zero) externals \<Rightarrow> 'a init_args \<Rightarrow> bool \<Rightarrow> error + ('a cpcv2 \<times> 'a calls \<times> effect list)" where
  "init ext args ge =
     (let pretrained = (case arg_pretrained args of None \<Rightarrow> False | Some s \<Rightarrow> s \<noteq> []);
          dataset = (if pretrained then arg_pretrained args else kwarg_dataset args);
          online = (if pretrained then True else arg_online_ft args) in
      andthen (case arg_encoder args of
                 EncoderName name \<Rightarrow> init_encoder ext args name
               | EncoderModule net \<Rightarrow> Inr net) (\<lambda>net.
      let self = \<lparr>hp_encoder = arg_encoder args, hp_dataset = dataset,
                  online_evaluator = online, encoder = net,
                  info_nce = None, non_linear_evaluator = None\<rparr> in
      andthen (compute_final_nb_c self ge (arg_patch_size args)) (\<lambda>((c, h), calls).
      let self = self\<lparr>info_nce :=
                   Some (CPCTask ext \<lparr>num_input_channels = c, target_dim = 64, embed_scale = 1 / 10\<rparr>)\<rparr>;
          z_dim = c * h * h;
          self = (if online_evaluator self
                  then self\<lparr>non_linear_evaluator :=
                         Some (SSLEvaluator ext \<lparr>n_input = z_dim,
                                 n_classes = datamodule_num_classes args,
                                 dropout_p = 2 / 10, n_hidden = 1024\<rparr>)\<rparr>
                  else self) in
      andthen (if pretrained then load_pretrained (arg_encoder args) else Inr []) (\<lambda>effects.
      Inr (self, calls, effects)))))"

subsection \<open>Training and validation steps\<close>

text \<open>
  The dictionary a training step returns: \<open>'loss'\<close> and \<open>'log'\<close>.
\<close>

record 'a train_result =
  loss :: "'a scalar"
  log_dict :: "string \<rightharpoonup> 'a scalar"

text \<open>
  \<open>CPCV2.training_step(batch, batch_nb)\<close>:
  \<^verbatim>\<open>
    if self.hparams.dataset == 'stl10':
        labeled_batch = batch[1]
        unlabeled_batch = batch[0]
        batch = unlabeled_batch
    img_1, y = batch
    Z = self(img_1)
    nce_loss = self.info_nce(Z)
    loss = nce_loss
    log = {'train_nce_loss': nce_loss}
    if self.online_evaluator:
        if self.hparams.dataset == 'stl10':
            img_1, y = labeled_batch
        with torch.no_grad():
            Z = self(img_1)
        z_in = Z.detach()
        z_in = z_in.reshape(Z.size(0), -1)
        mlp_preds = self.non_linear_evaluator(z_in)
        mlp_loss = F.cross_entropy(mlp_preds, y)
        loss = nce_loss + mlp_loss
        log['train_mlp_loss'] = mlp_loss
    result = {'loss': loss, 'log': log}
    return result
  \<close>
  \<open>ge\<close> is the gradient mode the step is called in; inside \<open>torch.no_grad()\<close> it is
  off. \<open>labeled_batch\<close> is read only where the dataset is \<open>'stl10'\<close>.
\<close>

definition training_step :: "('a::plus) externals \<Rightarrow> 'a cpcv2 \<Rightarrow> bool \<Rightarrow> 'a pyobj \<Rightarrow> error + ('a train_result \<times> 'a calls)" where
  "training_step ext self ge batch =
     andthen (case hp_dataset self of None \<Rightarrow> Inl AttributeError
              | Some dataset \<Rightarrow> Inr (dataset = ''stl10'')) (\<lambda>stl10.
     andthen (if stl10 then getitem batch 1 else Inr batch) (\<lambda>labeled_batch.
     andthen (if stl10 then getitem batch 0 else Inr batch) (\<lambda>batch.
     andthen (unpack2 batch) (\<lambda>(img_1, y).
     andthen (forward self ge img_1) (\<lambda>(Z, calls1).
     andthen (call_info_nce self ge Z) (\<lambda>nce_loss.
     let log = [''train_nce_loss'' \<mapsto> nce_loss] in
     if online_evaluator self
     then
       andthen (if stl10 then unpack2 labeled_batch else Inr (img_1, y)) (\<lambda>(img_1, y).
       andthen (forward self False img_1) (\<lambda>(Z, calls2).
       let z_in = detach Z in
       andthen (size_at Z 0) (\<lambda>b0.
       andthen (view z_in [int b0, - 1]) (\<lambda>z_in.
       andthen (call_non_linear_evaluator self ge z_in) (\<lambda>mlp_preds.
       andthen (call_cross_entropy ext ge mlp_preds y) (\<lambda>mlp_loss.
       Inr (\<lparr>loss = add_scalars ge nce_loss mlp_loss,
             log_dict = log(''train_mlp_loss'' \<mapsto> mlp_loss)\<rparr>, calls1 @ calls2)))))))
     else Inr (\<lparr>loss = nce_loss, log_dict = log\<rparr>, calls1)))))))"

text \<open>
  \<open>CPCV2.validation_step(batch, batch_nb)\<close>:
  \<^verbatim>\<open>
    if self.hparams.dataset == 'stl10':
        labeled_batch = batch[1]
        unlabeled_batch = batch[0]
        batch = unlabeled_batch
    img_1, y = batch
    Z = self(img_1)
    nce_loss = self.info_nce(Z)
    result = {'val_nce': nce_loss}
    if self.online_evaluator:
        if self.hparams.dataset == 'stl10':
            img_1, y = labeled_batch
            Z = self(img_1)
        z_in = Z.reshape(Z.size(0), -1)
        mlp_preds = self.non_linear_evaluator(z_in)
        mlp_loss = F.cross_entropy(mlp_preds, y)
        acc = metrics.accuracy(mlp_preds, y)
        result['mlp_acc'] = acc
        result['mlp_loss'] = mlp_loss
    return result
  \<close>
\<close>

definition validation_step :: "'a externals \<Rightarrow> 'a cpcv2 \<Rightarrow> bool \<Rightarrow> 'a pyobj \<Rightarrow> error + ((string \<rightharpoonup> 'a scalar) \<times> 'a calls)" where
  "validation_step ext self ge batch =
     andthen (case hp_dataset self of None \<Rightarrow> Inl AttributeError
              | Some dataset \<Rightarrow> Inr (dataset = ''stl10'')) (\<lambda>stl10.
     andthen (if stl10 then getitem batch 1 else Inr batch) (\<lambda>labeled_batch.
     andthen (if stl10 then getitem batch 0 else Inr batch) (\<lambda>batch.
     andthen (unpack2 batch) (\<lambda>(img_1, y).
     andthen (forward self ge img_1) (\<lambda>(Z, calls1).
     andthen (call_info_nce self ge Z) (\<lambda>nce_loss.
     let result = [''val_nce'' \<mapsto> nce_loss] in
     if online_evaluator self
     then
       andthen (if stl10
                then andthen (unpack2 labeled_batch) (\<lambda>(img_1, y).
                     andthen (forward self ge img_1) (\<lambda>(Z, calls2). Inr (y, Z, calls2)))
                else Inr (y, Z, [])) (\<lambda>(y, Z, calls2).
       andthen (size_at Z 0) (\<lambda>b0.
       andthen (view Z [int b0, - 1]) (\<lambda>z_in.
       andthen (call_non_linear_evaluator self ge z_in) (\<lambda>mlp_preds.
       andthen (call_cross_entropy ext ge mlp_preds y) (\<lambda>mlp_loss.
       andthen (call_accuracy ext mlp_preds y) (\<lambda>acc.
       Inr (result(''mlp_acc'' \<mapsto> acc, ''mlp_loss'' \<mapsto> mlp_loss), calls1 @ calls2)))))))
     else Inr (result, calls1)))))))"

subsection \<open>Epoch-level aggregation\<close>

text \<open>
  Modelled from the spec: \<open>metrics.mean(outputs, key)\<close> of \<open>pl_bolts.metrics\<close>, which
  is not among the sources. The spec: "aggregate per-step metrics across an epoch by
  arithmetic mean, reported as the epoch-level validation metrics". The values under
  \<open>key\<close> are collected from the step outputs (a KeyError when one has no such key)
  and averaged; no outputs at all cannot be averaged (RuntimeError).
\<close>

fun collect :: "(string \<rightharpoonup> real) list \<Rightarrow> string \<Rightarrow> error + real list" where
  "collect [] key = Inr []"
| "collect (x # xs) key =
     (case x key of
        None \<Rightarrow> Inl KeyError
      | Some v \<Rightarrow> andthen (collect xs key) (\<lambda>vs. Inr (v # vs)))"

definition metrics_mean :: "(string \<rightharpoonup> real) list \<Rightarrow> string \<Rightarrow> error + real" where
  "metrics_mean outputs key =
     andthen (collect outputs key) (\<lambda>vs.
     if vs = [] then Inl RuntimeError else Inr (sum_list vs / real (length vs)))"

text \<open>
  The dictionary \<open>validation_epoch_end\<close> returns: \<open>'val_loss'\<close>, \<open>'log'\<close> and
  \<open>'progress_bar'\<close>.
\<close>

record epoch_result =
  val_loss :: real
  epoch_log :: "string \<rightharpoonup> real"
  progress_bar :: "string \<rightharpoonup> real"

text \<open>
  \<open>CPCV2.validation_epoch_end(outputs)\<close>:
  \<^verbatim>\<open>
    val_nce = metrics.mean(outputs, 'val_nce')
    log = {'val_nce_loss': val_nce}
    if self.online_evaluator:
        mlp_acc = metrics.mean(outputs, 'mlp_acc')
        mlp_loss = metrics.mean(outputs, 'mlp_loss')
        log['val_mlp_acc'] = mlp_acc
        log['val_mlp_loss'] = mlp_loss
    return {'val_loss': val_nce, 'log': log, 'progress_bar': log}
  \<close>
\<close>

definition validation_epoch_end :: "'a cpcv2 \<Rightarrow> (string \<rightharpoonup> real) list \<Rightarrow> error + epoch_result" where
  "validation_epoch_end self outputs =
     andthen (metrics_mean outputs ''val_nce'') (\<lambda>val_nce.
     let log = [''val_nce_loss'' \<mapsto> val_nce] in
     andthen (if online_evaluator self
              then andthen (metrics_mean outputs ''mlp_acc'') (\<lambda>mlp_acc.
                   andthen (metrics_mean outputs ''mlp_loss'') (\<lambda>mlp_loss.
                   Inr (log(''val_mlp_acc'' \<mapsto> mlp_acc, ''val_mlp_loss'' \<mapsto> mlp_loss))))
              else Inr log) (\<lambda>log.
     Inr \<lparr>val_loss = val_nce, epoch_log = log, progress_bar = log\<rparr>))"

subsection \<open>Auxiliary notions for the proofs\<close>

text \<open>The history \<open>h\<close> put on the tensor a statement returns.\<close>

definition set_history :: "history \<Rightarrow> error + 'a tensor \<Rightarrow> error + 'a tensor" where
  "set_history h r = andthen r (\<lambda>t. Inr (t\<lparr>grad_fn := h\<rparr>))"

subsection \<open>A small instance\<close>

text \<open>
  Concrete collaborators on integer tensors, for evaluating the model: networks that
  return five zero features per patch (as a tensor, or as a one-element list),
  networks that return the same two feature vectors for every input, a network that
  returns its input, and a module with an identity probe whose contrastive loss and
  cross-entropy are the sum of the elements. The batches hold two images of one patch
  of one pixel each.
\<close>

definition toy_features :: "nat \<Rightarrow> int tensor" where
  "toy_features n = \<lparr>shape = [n, 5, 1, 1], data = replicate (n * 5) 0, grad_fn = NoHistory\<rparr>"

definition toy_net :: "int network" where
  "toy_net x = (case shape x of [] \<Rightarrow> Inl RuntimeError | n # _ \<Rightarrow> Inr (Tensor (toy_features n)))"

definition toy_list_net :: "int network" where
  "toy_list_net x = andthen (toy_net x) (\<lambda>t. Inr (Tuple [t]))"

definition toy_externals :: "int externals" where
  "toy_externals =
     \<lparr>CPCResNet101 = (\<lambda>_. Inr toy_net),
      torchvision_ssl_encoder = (\<lambda>_ _. Inr toy_list_net),
      CPCTask = (\<lambda>cfg Z. Inr (int (num_input_channels cfg))),
      SSLEvaluator = (\<lambda>cfg z. Inr z),
      cross_entropy = (\<lambda>preds y. Inr (sum_list (data preds))),
      accuracy = (\<lambda>preds y. Inr 1)\<rparr>"

definition toy_args :: "string \<Rightarrow> int init_args" where
  "toy_args name =
     \<lparr>arg_encoder = EncoderName name, arg_patch_size = 8, arg_patch_overlap = 4,
      arg_online_ft = True, arg_amdim_task = False, arg_pretrained = None,
      kwarg_dataset = Some ''cifar10'', datamodule_num_classes = 10\<rparr>"

definition two_images :: "int tensor" where
  "two_images = \<lparr>shape = [2, 1, 1, 1, 1], data = [0, 0], grad_fn = NoHistory\<rparr>"

definition two_features :: "int tensor" where
  "two_features = \<lparr>shape = [2, 2, 1, 1], data = [1, 2, 3, 4], grad_fn = NoHistory\<rparr>"

definition tensor_net :: "int network" where
  "tensor_net x = Inr (Tensor two_features)"

definition list_net :: "int network" where
  "list_net x = Inr (Tuple [Tensor two_features])"

definition toy_self :: "int encoder_arg \<Rightarrow> int network \<Rightarrow> string \<Rightarrow> bool \<Rightarrow> int cpcv2" where
  "toy_self enc net dataset online =
     \<lparr>hp_encoder = enc, hp_dataset = Some dataset, online_evaluator = online, encoder = net,
      info_nce = Some (\<lambda>Z. Inr (sum_list (data Z))),
      non_linear_evaluator = Some (\<lambda>z. Inr z)\<rparr>"

definition identity_net :: "int network" where
  "identity_net x = Inr (Tensor x)"

definition unlabeled_images :: "int tensor" where
  "unlabeled_images = \<lparr>shape = [2, 1, 1, 1, 1], data = [5, 7], grad_fn = NoHistory\<rparr>"

definition labeled_images :: "int tensor" where
  "labeled_images = \<lparr>shape = [2, 1, 1, 1, 1], data = [1, 2], grad_fn = NoHistory\<rparr>"

definition two_labels :: "int tensor" where
  "two_labels = \<lparr>shape = [2], data = [0, 1], grad_fn = NoHistory\<rparr>"

definition encoder_history :: history where
  "encoder_history = Backward ''encoder'' [Parameters ''encoder'', NoHistory]"

definition probe_history :: history where
  "probe_history =
     Backward ''non_linear_evaluator'' [Parameters ''non_linear_evaluator'', NoHistory]"

section \<open>Properties\<close>

subsection \<open>Running statements in sequence\<close>

lemma andthen_Inr [simp]: "andthen (Inr v) f = f v"
  by (simp add: andthen_def)

lemma andthen_Inl [simp]: "andthen (Inl e) f = Inl e"
  by (simp add: andthen_def)

subsection \<open>Integer square root\<close>

lemma sqrt_below_sq: "sqrt_below n k * sqrt_below n k \<le> n"
  by (induction k) auto

lemma sqrt_below_max: "r \<le> k \<Longrightarrow> r * r \<le> n \<Longrightarrow> r \<le> sqrt_below n k"
proof (induction k)
  case 0 then show ?case by simp
next
  case (Suc k)
  show ?case
  proof (cases "Suc k * Suc k \<le> n")
    case True then show ?thesis using Suc.prems by simp
  next
    case False
    then have "r \<noteq> Suc k" using Suc.prems by auto
    then have "r \<le> k" using Suc.prems by simp
    then show ?thesis using Suc False by simp
  qed
qed

lemma int_sqrt_sq: "int_sqrt n * int_sqrt n \<le> n"
  by (simp add: int_sqrt_def sqrt_below_sq)

lemma int_sqrt_max: "r * r \<le> n \<Longrightarrow> r \<le> int_sqrt n"
proof -
  assume a: "r * r \<le> n"
  have "r \<le> r * r" by (cases r) auto
  then have "r \<le> n" using a by (rule le_trans)
  then show ?thesis unfolding int_sqrt_def using a by (rule sqrt_below_max)
qed

lemma int_sqrt_square: "int_sqrt (m * m) = m"
proof (rule antisym)
  have sq: "int_sqrt (m * m) * int_sqrt (m * m) \<le> m * m" by (rule int_sqrt_sq)
  have "int_sqrt (m * m) \<le> m"
  proof (rule ccontr)
    assume "\<not> int_sqrt (m * m) \<le> m"
    then have h: "Suc m \<le> int_sqrt (m * m)" by simp
    have "Suc m * Suc m \<le> int_sqrt (m * m) * int_sqrt (m * m)" by (rule mult_le_mono [OF h h])
    with sq show False by simp
  qed
  then show "int_sqrt (m * m) \<le> m" .
  show "m \<le> int_sqrt (m * m)" by (rule int_sqrt_max) simp
qed

lemma int_sqrt_pos: "0 < n \<Longrightarrow> 0 < int_sqrt n"
  using int_sqrt_max [of 1 n] by simp

subsection \<open>Grid reassembly\<close>

lemma view_infer_mid:
  assumes "0 < b" "0 < c" "numel t = b * p * c"
  shows "view t [int b, - 1, int c] = Inr (t\<lparr>shape := [b, p, c]\<rparr>)"
proof -
  have f: "filter (\<lambda>s. s \<noteq> - 1) [int b, - 1, int c] = [int b, int c]" by simp
  have n: "nat (prod_list [int b, int c]) = b * c" by (simp add: nat_mult_distrib)
  have d: "b * p * c div (b * c) = p" using assms by (simp add: mult.assoc mult.left_commute)
  have m: "b * p * c mod (b * c) = 0" by (simp add: mult.assoc mult.left_commute)
  have pos: "0 < b * c" using assms by simp
  show ?thesis
    unfolding view_def Let_def f n assms(3) d m using pos by simp
qed

lemma view_infer_grid:
  assumes "0 < b" "0 < n" "numel t = b * q"
  shows "view t [int b, - 1, int n, int n] =
     (if q mod (n * n) = 0 then Inr (t\<lparr>shape := [b, q div (n * n), n, n]\<rparr>) else Inl RuntimeError)"
proof -
  have f: "filter (\<lambda>s. s \<noteq> - 1) [int b, - 1, int n, int n] = [int b, int n, int n]" by simp
  have n: "nat (prod_list [int b, int n, int n]) = b * (n * n)" by (simp add: nat_mult_distrib)
  have d: "b * q div (b * (n * n)) = q div (n * n)" using assms by simp
  have m: "b * q mod (b * (n * n)) = b * (q mod (n * n))" by (rule mult_mod_right [symmetric])
  have pos: "0 < b * (n * n)" using assms by simp
  show ?thesis
    unfolding view_def Let_def f n assms(3) d m using assms(1) pos by simp
qed

lemma recover_z_shape_flat:
  assumes B: "0 < B" and C: "0 < Cz" and P: "0 < P"
    and sh: "shape Z = [B * P, Cz, 1, 1]"
  shows "recover_z_shape Z B =
     (if (Cz * P) mod (int_sqrt P * int_sqrt P) = 0
      then Inr (Z\<lparr>shape := [B, (Cz * P) div (int_sqrt P * int_sqrt P), int_sqrt P, int_sqrt P],
                data := regrouped (data Z) B P Cz\<rparr>)
      else Inl RuntimeError)"
proof -
  let ?Z1 = "Z\<lparr>shape := [B * P, Cz, 1]\<rparr>"
  have s1: "squeeze_last Z = ?Z1" by (simp add: squeeze_last_def sh)
  have n1: "numel ?Z1 = B * P * Cz" by (simp add: numel_def)
  have v1: "view ?Z1 [int B, - 1, int Cz] = Inr (Z\<lparr>shape := [B, P, Cz]\<rparr>)"
    using view_infer_mid [OF B C n1] by simp
  have p1: "permute_021 (Z\<lparr>shape := [B, P, Cz]\<rparr>) =
      Inr (Z\<lparr>shape := [B, Cz, P], data := regrouped (data Z) B P Cz\<rparr>)"
    by (simp add: permute_021_def)
  have n3: "numel (Z\<lparr>shape := [B, Cz, P], data := regrouped (data Z) B P Cz\<rparr>) = B * (Cz * P)"
    by (simp add: numel_def)
  have d: "B * P div B = P" using B by simp
  have np: "0 < int_sqrt P" using P by (rule int_sqrt_pos)
  have sz0: "size_at ?Z1 0 = Inr (B * P)" by (simp add: size_at_def)
  have sz1: "size_at ?Z1 1 = Inr Cz" by (simp add: size_at_def)
  have b0: "(B = 0) = False" using B by simp
  show ?thesis
    unfolding recover_z_shape_def Let_def s1 sz0 sz1 andthen_Inr b0 if_False d v1 p1
      view_infer_grid [OF B np n3]
    by simp
qed

lemma length_concat_uniform:
  "(\<And>i. i < a \<Longrightarrow> length (f i) = m) \<Longrightarrow> length (concat (map f [0..<a])) = a * m"
  by (induction a) auto

lemma nth_concat_uniform:
  assumes "\<And>i. i < a \<Longrightarrow> length (f i) = m" and "i < a" and "r < m"
  shows "concat (map f [0..<a]) ! (i * m + r) = f i ! r"
  using assms
proof (induction a)
  case 0 then show ?case by simp
next
  case (Suc a)
  have len: "length (concat (map f [0..<a])) = a * m"
    using Suc.prems(1) by (intro length_concat_uniform) simp
  show ?case
  proof (cases "i < a")
    case True
    have "i * m + r < a * m"
    proof -
      have "i * m + r < i * m + m" using Suc.prems(3) by simp
      also have "\<dots> = Suc i * m" by simp
      also have "\<dots> \<le> a * m" using True by (intro mult_le_mono1) simp
      finally show ?thesis .
    qed
    then show ?thesis using Suc True len by (simp add: nth_append)
  next
    case False
    then have "i = a" using Suc.prems(2) by simp
    then show ?thesis using len by (simp add: nth_append)
  qed
qed

lemma length_regrouped: "length (regrouped xs a b c) = a * (c * b)"
  unfolding regrouped_def
  by (intro length_concat_uniform) simp

lemma nth_regrouped:
  assumes "i < a" "k < c" "j < b"
  shows "regrouped xs a b c ! ((i * c + k) * b + j) = xs ! ((i * b + j) * c + k)"
proof -
  let ?row = "\<lambda>i k. map (\<lambda>j. xs ! ((i * b + j) * c + k)) [0..<b]"
  let ?img = "\<lambda>i. concat (map (?row i) [0..<c])"
  have li: "\<And>i. length (?img i) = c * b"
    by (intro length_concat_uniform) simp
  have kj: "k * b + j < c * b"
  proof -
    have "k * b + j < Suc k * b" using assms(3) by simp
    also have "\<dots> \<le> c * b" using assms(2) by (intro mult_le_mono1) simp
    finally show ?thesis .
  qed
  have "regrouped xs a b c ! (i * (c * b) + (k * b + j)) = ?img i ! (k * b + j)"
    unfolding regrouped_def using li assms(1) kj by (intro nth_concat_uniform) auto
  also have "\<dots> = ?row i k ! j"
    using assms by (intro nth_concat_uniform) auto
  also have "\<dots> = xs ! ((i * b + j) * c + k)" using assms(3) by simp
  finally show ?thesis by (simp add: algebra_simps)
qed

lemma item_4d:
  assumes "b < s0" "c < s1" "i < s2" "j < s3" "shape t = [s0, s1, s2, s3]"
  shows "item t [b, c, i, j] = Inr (data t ! (((b * s1 + c) * s2 + i) * s3 + j))"
  using assms by (simp add: item_def)

text \<open>
  C1. Grid reassembly round trip. For a batch size \<open>B \<ge> 1\<close>, a channel count
  \<open>Cz \<ge> 1\<close> and a patch count \<open>P = n * n\<close> (\<open>n \<ge> 1\<close>), a flat input of shape
  \<open>(B * P, Cz, 1, 1)\<close> is reassembled into a grid of shape \<open>(B, Cz, n, n)\<close> whose entry
  \<open>[b][c][i][j]\<close> is the channel-\<open>c\<close> component of the flat entry \<open>b * P + i * n + j\<close>.
\<close>

theorem recover_z_shape_round_trip:
  assumes B: "1 \<le> B" and C: "1 \<le> Cz" and n: "1 \<le> n"
    and sh: "shape Z = [B * (n * n), Cz, 1, 1]" and wf: "wf_tensor Z"
  shows "\<exists>G. recover_z_shape Z B = Inr G \<and> shape G = [B, Cz, n, n] \<and> wf_tensor G \<and>
    (\<forall>b<B. \<forall>c<Cz. \<forall>i<n. \<forall>j<n.
       item G [b, c, i, j] = item Z [b * (n * n) + i * n + j, c, 0, 0] \<and>
       item G [b, c, i, j] = Inr (data Z ! ((b * (n * n) + i * n + j) * Cz + c)))"
proof -
  let ?P = "n * n"
  let ?G = "Z\<lparr>shape := [B, Cz, n, n], data := regrouped (data Z) B ?P Cz\<rparr>"
  have P: "0 < ?P" using n by simp
  have sq: "int_sqrt ?P = n" by (rule int_sqrt_square)
  have r: "recover_z_shape Z B = Inr ?G"
    using recover_z_shape_flat [of B Cz ?P Z] B C P sh n by (simp add: sq)
  have w: "wf_tensor ?G"
    by (simp add: wf_tensor_def numel_def length_regrouped)
  have el: "item ?G [b, c, i, j] = item Z [b * ?P + i * n + j, c, 0, 0] \<and>
       item ?G [b, c, i, j] = Inr (data Z ! ((b * ?P + i * n + j) * Cz + c))"
    if "b < B" "c < Cz" "i < n" "j < n" for b c i j
  proof -
    have k: "i * n + j < ?P"
    proof -
      have "i * n + j < Suc i * n" using that(4) by simp
      also have "\<dots> \<le> n * n" using that(3) by (intro mult_le_mono1) simp
      finally show ?thesis .
    qed
    have row: "b * ?P + (i * n + j) < B * ?P"
    proof -
      have "b * ?P + (i * n + j) < Suc b * ?P" using k by simp
      also have "\<dots> \<le> B * ?P" using that(1) by (intro mult_le_mono1) simp
      finally show ?thesis .
    qed
    have g: "item ?G [b, c, i, j] = Inr (regrouped (data Z) B ?P Cz ! (((b * Cz + c) * n + i) * n + j))"
      using that item_4d [of b B c Cz i n j n ?G] by simp
    have off: "((b * Cz + c) * n + i) * n + j = (b * Cz + c) * ?P + (i * n + j)"
      by (simp add: algebra_simps)
    have nth: "regrouped (data Z) B ?P Cz ! ((b * Cz + c) * ?P + (i * n + j)) =
        data Z ! ((b * ?P + (i * n + j)) * Cz + c)"
      using that(1,2) k by (rule nth_regrouped)
    have z: "item Z [b * ?P + i * n + j, c, 0, 0] =
        Inr (data Z ! ((((b * ?P + i * n + j) * Cz + c) * 1 + 0) * 1 + 0))"
      using row that(2) sh item_4d [of "b * ?P + i * n + j" "B * ?P" c Cz 0 1 0 1 Z]
      by (simp add: add.assoc)
    show ?thesis using g z nth by (simp add: off add.assoc)
  qed
  have all: "\<forall>b<B. \<forall>c<Cz. \<forall>i<n. \<forall>j<n.
       item ?G [b, c, i, j] = item Z [b * ?P + i * n + j, c, 0, 0] \<and>
       item ?G [b, c, i, j] = Inr (data Z ! ((b * ?P + i * n + j) * Cz + c))"
    using el by blast
  have sG: "shape ?G = [B, Cz, n, n]" by simp
  show ?thesis using r w sG all by blast
qed

theorem recover_z_shape_round_trip_witness:
  "\<exists>G. recover_z_shape \<lparr>shape = [8, 1, 1, 1], data = [10, 11, 12, 13, 14, 15, 16, 17 :: int], grad_fn = NoHistory\<rparr> 2 = Inr G
     \<and> shape G = [2, 1, 2, 2] \<and> wf_tensor G \<and> item G [1, 0, 1, 0] = Inr 16"
proof -
  let ?Z = "\<lparr>shape = [8, 1, 1, 1], data = [10, 11, 12, 13, 14, 15, 16, 17 :: int], grad_fn = NoHistory\<rparr>"
  have a: "(1::nat) \<le> 2" "(1::nat) \<le> 1" by simp_all
  have sh: "shape ?Z = [2 * (2 * 2), 1, 1, 1]" by simp
  have wf: "wf_tensor ?Z" by (simp add: wf_tensor_def numel_def)
  obtain G where G: "recover_z_shape ?Z 2 = Inr G" "shape G = [2, 1, 2, 2]" "wf_tensor G"
    and el: "\<forall>b<2. \<forall>c<1. \<forall>i<2. \<forall>j<2.
       item G [b, c, i, j] = item ?Z [b * (2 * 2) + i * 2 + j, c, 0, 0] \<and>
       item G [b, c, i, j] = Inr (data ?Z ! ((b * (2 * 2) + i * 2 + j) * 1 + c))"
    using recover_z_shape_round_trip [OF a(1) a(2) a(1) sh wf] by blast
  have "item G [1, 0, 1, 0] = Inr 16"
    using el [rule_format, of 1 0 1 0] by (simp add: item_def)
  then show ?thesis using G by blast
qed

text \<open>
  C2 (as amended). Shape of the reassembled grid. For \<open>B, Cz, P \<ge> 1\<close> and a flat
  input of shape \<open>(B * P, Cz, 1, 1)\<close>: when \<open>P = n * n\<close> the output shape is exactly
  \<open>(B, Cz, n, n)\<close>. In general, with \<open>n = int_sqrt P\<close>, the call fails with a shape
  error (RuntimeError) exactly when \<open>n * n\<close> does not divide \<open>Cz * P\<close>, and otherwise
  returns a grid of shape \<open>(B, Cz * P div (n * n), n, n)\<close>: a patch count that is not a
  perfect square is not rejected as such.
\<close>

theorem recover_z_shape_output_shape:
  assumes B: "1 \<le> B" and C: "1 \<le> Cz" and P: "1 \<le> P"
    and sh: "shape Z = [B * P, Cz, 1, 1]"
  shows "(\<forall>n. P = n * n \<longrightarrow> (\<exists>G. recover_z_shape Z B = Inr G \<and> shape G = [B, Cz, n, n]))
    \<and> ((Cz * P) mod (int_sqrt P * int_sqrt P) \<noteq> 0 \<longrightarrow> recover_z_shape Z B = Inl RuntimeError)
    \<and> ((Cz * P) mod (int_sqrt P * int_sqrt P) = 0 \<longrightarrow>
         (\<exists>G. recover_z_shape Z B = Inr G \<and>
              shape G = [B, (Cz * P) div (int_sqrt P * int_sqrt P), int_sqrt P, int_sqrt P]))"
proof -
  have r: "recover_z_shape Z B =
     (if (Cz * P) mod (int_sqrt P * int_sqrt P) = 0
      then Inr (Z\<lparr>shape := [B, (Cz * P) div (int_sqrt P * int_sqrt P), int_sqrt P, int_sqrt P],
                data := regrouped (data Z) B P Cz\<rparr>)
      else Inl RuntimeError)"
    using B C P sh by (intro recover_z_shape_flat) simp_all
  have sq: "\<exists>G. recover_z_shape Z B = Inr G \<and> shape G = [B, Cz, n, n]" if "P = n * n" for n
  proof -
    have "0 < n" using P that by (cases n) simp_all
    then show ?thesis using r by (simp add: that int_sqrt_square)
  qed
  show ?thesis using r sq by simp
qed

theorem recover_z_shape_output_shape_witness:
  "(\<exists>G. recover_z_shape \<lparr>shape = [4, 3, 1, 1], data = [1 ..< 13], grad_fn = NoHistory\<rparr> 1 = Inr G \<and> shape G = [1, 3, 2, 2])
   \<and> recover_z_shape \<lparr>shape = [5, 1, 1, 1], data = [1 ..< 6], grad_fn = NoHistory\<rparr> 1 = Inl RuntimeError
   \<and> (\<exists>G. recover_z_shape \<lparr>shape = [2, 3, 1, 1], data = [1 ..< 7], grad_fn = NoHistory\<rparr> 1 = Inr G \<and> shape G = [1, 6, 1, 1])"
proof -
  have s4: "int_sqrt 4 = 2" and s5: "int_sqrt 5 = 2" and s2: "int_sqrt 2 = 1" by code_simp+
  have a: "(1::nat) \<le> 1" "(1::nat) \<le> 3" "(1::nat) \<le> 4" "(1::nat) \<le> 5" "(1::nat) \<le> 2" by simp_all
  have "\<exists>G. recover_z_shape \<lparr>shape = [4, 3, 1, 1], data = [1 ..< 13], grad_fn = NoHistory\<rparr> 1 = Inr G \<and> shape G = [1, 3, 2, 2]"
    using recover_z_shape_output_shape [OF a(1) a(2) a(3), of "\<lparr>shape = [4, 3, 1, 1], data = [1 ..< 13], grad_fn = NoHistory\<rparr>"]
    by simp
  moreover have "recover_z_shape \<lparr>shape = [5, 1, 1, 1], data = [1 ..< 6], grad_fn = NoHistory\<rparr> 1 = Inl RuntimeError"
    using recover_z_shape_output_shape [OF a(1) a(1) a(4), of "\<lparr>shape = [5, 1, 1, 1], data = [1 ..< 6], grad_fn = NoHistory\<rparr>"]
    by (simp add: s5)
  moreover have "\<exists>G. recover_z_shape \<lparr>shape = [2, 3, 1, 1], data = [1 ..< 7], grad_fn = NoHistory\<rparr> 1 = Inr G \<and> shape G = [1, 6, 1, 1]"
    using recover_z_shape_output_shape [OF a(1) a(2) a(5), of "\<lparr>shape = [2, 3, 1, 1], data = [1 ..< 7], grad_fn = NoHistory\<rparr>"]
    by (simp add: s2)
  ultimately show ?thesis by blast
qed

text \<open>
  The claim as stated fails: 8 patches are not a perfect square, and one image with one
  channel is reassembled without error into a grid of two channels of 2 by 2.
\<close>

theorem recover_z_shape_non_square_counterexample:
  "(\<forall>n::nat. n * n \<noteq> 8) \<and>
   recover_z_shape \<lparr>shape = [8, 1, 1, 1], data = [1, 2, 3, 4, 5, 6, 7, 8 :: int], grad_fn = NoHistory\<rparr> 1 =
     Inr \<lparr>shape = [1, 2, 2, 2], data = [1, 2, 3, 4, 5, 6, 7, 8], grad_fn = NoHistory\<rparr>"
proof -
  have "n * n \<noteq> 8" for n :: nat
  proof (cases "n \<le> 2")
    case True
    then have "n = 0 \<or> n = 1 \<or> n = 2" by auto
    then show ?thesis by auto
  next
    case False
    then have h: "3 \<le> n" by simp
    have "3 * 3 \<le> n * n" by (rule mult_le_mono [OF h h])
    then show ?thesis by simp
  qed
  moreover have "recover_z_shape
      \<lparr>shape = [8, 1, 1, 1], data = [1, 2, 3, 4, 5, 6, 7, 8 :: int], grad_fn = NoHistory\<rparr> 1 =
     Inr \<lparr>shape = [1, 2, 2, 2], data = [1, 2, 3, 4, 5, 6, 7, 8], grad_fn = NoHistory\<rparr>"
    by code_simp
  ultimately show ?thesis by blast
qed

text \<open>An empty flat input (no patches) is not reassembled: the last \<open>view\<close> cannot infer a size.\<close>

lemma recover_z_shape_empty_grid:
  "recover_z_shape \<lparr>shape = [0, 1, 1, 1], data = [] :: int list, grad_fn = NoHistory\<rparr> 1 = Inl RuntimeError"
  by code_simp
subsection \<open>Histories and shapes of the tensor operations\<close>

lemma andthen_eq_Inr:
  "andthen r f = Inr v \<longleftrightarrow> (\<exists>u. r = Inr u \<and> f u = Inr v)"
  by (cases r) simp_all

lemma set_history_simps [simp]:
  "set_history h (Inl e) = Inl e" "set_history h (Inr t) = Inr (t\<lparr>grad_fn := h\<rparr>)"
  by (simp_all add: set_history_def)

lemma numel_history [simp]: "numel (t\<lparr>grad_fn := h\<rparr>) = numel t"
  by (simp add: numel_def)

lemma size_at_history [simp]: "size_at (t\<lparr>grad_fn := h\<rparr>) i = size_at t i"
  by (simp add: size_at_def)

lemma squeeze_last_history: "squeeze_last (t\<lparr>grad_fn := h\<rparr>) = (squeeze_last t)\<lparr>grad_fn := h\<rparr>"
  by (simp add: squeeze_last_def)

lemma view_history: "view (t\<lparr>grad_fn := h\<rparr>) sizes = set_history h (view t sizes)"
  by (simp add: view_def Let_def)

lemma permute_021_history: "permute_021 (t\<lparr>grad_fn := h\<rparr>) = set_history h (permute_021 t)"
  by (simp add: permute_021_def split: list.splits)

lemma select0_history: "select0 (t\<lparr>grad_fn := h\<rparr>) i = set_history h (select0 t i)"
  by (simp add: select0_def split: list.splits)

lemma recover_z_shape_history:
  "recover_z_shape (Z\<lparr>grad_fn := h\<rparr>) b = set_history h (recover_z_shape Z b)"
proof -
  have v: "andthen (set_history h r) f = andthen r (\<lambda>t. f (t\<lparr>grad_fn := h\<rparr>))" for r :: "error + 'a tensor" and f :: "'a tensor \<Rightarrow> error + 'a tensor"
    by (cases r) simp_all
  have a: "set_history h (andthen r f) = andthen r (\<lambda>x. set_history h (f x))" for r :: "error + 'b" and f
    by (cases r) simp_all
  show ?thesis
    unfolding recover_z_shape_def Let_def squeeze_last_history size_at_history view_history
      permute_021_history v a
    by simp
qed

lemma grad_fn_view: "view t sizes = Inr u \<Longrightarrow> grad_fn u = grad_fn t"
  by (auto simp: view_def Let_def split: if_splits)

lemma grad_fn_permute_021: "permute_021 t = Inr u \<Longrightarrow> grad_fn u = grad_fn t"
  by (auto simp: permute_021_def split: list.splits)

lemma grad_fn_squeeze_last [simp]: "grad_fn (squeeze_last t) = grad_fn t"
  by (simp add: squeeze_last_def)

lemma grad_fn_recover_z_shape:
  assumes "recover_z_shape Z b = Inr G"
  shows "grad_fn G = grad_fn Z"
  using assms unfolding recover_z_shape_def Let_def andthen_eq_Inr
  by (auto dest!: grad_fn_view grad_fn_permute_021 split: if_splits)

lemma shape_recover_z_shape:
  assumes "recover_z_shape Z b = Inr G"
  shows "\<exists>c n. shape G = [b, c, n, n]"
  using assms unfolding recover_z_shape_def Let_def andthen_eq_Inr
  by (auto simp: view_def Let_def split: if_splits)


subsection \<open>Forward pass\<close>

lemma getitem_with_history:
  "getitem (with_history h out) i = andthen (getitem out i) (\<lambda>x. Inr (with_history h x))"
  by (cases out) (simp_all add: getitem_def select0_history set_history_def andthen_def split: sum.splits)

lemma forward_tensor_form:
  assumes "names_cpc_encoder (hp_encoder self)"
    and "shape img = [b, p, c, w, h]"
    and "view img [- 1, int c, int w, int h] = Inr x"
    and "encoder self x = Inr (Tensor t)"
  shows "forward self ge (Tensor img) =
     andthen (recover_z_shape (t\<lparr>grad_fn := track ge ''encoder'' [Parameters ''encoder'', grad_fn x]\<rparr>) b)
       (\<lambda>Z. Inr (Z, [(ge, x)]))"
  using assms by (simp add: forward_def as_tensor_def call_encoder_def)

lemma forward_sequence_form:
  assumes "\<not> names_cpc_encoder (hp_encoder self)"
    and "shape img = [b, p, c, w, h]"
    and "view img [- 1, int c, int w, int h] = Inr x"
    and "encoder self x = Inr (Tuple (Tensor t # rest))"
  shows "forward self ge (Tensor img) =
     andthen (recover_z_shape (t\<lparr>grad_fn := track ge ''encoder'' [Parameters ''encoder'', grad_fn x]\<rparr>) b)
       (\<lambda>Z. Inr (Z, [(ge, x)]))"
  using assms by (simp add: forward_def as_tensor_def call_encoder_def getitem_def)

text \<open>
  C4 (as amended). The two forms of encoder output are told apart by the configured
  encoder, not by the value returned: a single tensor is taken as it is only when
  \<open>hparams.encoder\<close> is the string \<open>'cpc_encoder'\<close>; for every other setting (another
  name, or a module instance) the output is indexed with \<open>[0]\<close>. An encoder configured
  as \<open>'cpc_encoder'\<close> that returns the tensor \<open>t\<close> and an encoder configured otherwise
  that returns a sequence starting with \<open>t\<close> give the same result for every patch
  batch: the reassembly of \<open>t\<close>.
\<close>

theorem forward_encoder_output_forms:
  assumes "shape img = [b, p, c, w, h]"
    and "view img [- 1, int c, int w, int h] = Inr x"
    and "names_cpc_encoder (hp_encoder self1)" and "encoder self1 x = Inr (Tensor t)"
    and "\<not> names_cpc_encoder (hp_encoder self2)" and "encoder self2 x = Inr (Tuple (Tensor t # rest))"
  shows "forward self1 ge (Tensor img) = forward self2 ge (Tensor img) \<and>
     forward self1 ge (Tensor img) =
       andthen (recover_z_shape (t\<lparr>grad_fn := track ge ''encoder'' [Parameters ''encoder'', grad_fn x]\<rparr>) b)
         (\<lambda>Z. Inr (Z, [(ge, x)]))"
  using forward_tensor_form [OF assms(3,1,2,4)] forward_sequence_form [OF assms(5,1,2,6)]
  by simp

theorem forward_encoder_output_forms_witness:
  "forward (toy_self (EncoderName ''cpc_encoder'') tensor_net ''cifar10'' True) True (Tensor two_images) =
   forward (toy_self (EncoderModule list_net) list_net ''cifar10'' True) True (Tensor two_images) \<and>
   forward (toy_self (EncoderName ''cpc_encoder'') tensor_net ''cifar10'' True) True (Tensor two_images) =
     Inr (\<lparr>shape = [2, 2, 1, 1], data = [1, 2, 3, 4],
           grad_fn = Backward ''encoder'' [Parameters ''encoder'', NoHistory]\<rparr>,
          [(True, \<lparr>shape = [2, 1, 1, 1], data = [0, 0], grad_fn = NoHistory\<rparr>)])"
proof -
  let ?x = "\<lparr>shape = [2, 1, 1, 1], data = [0, 0], grad_fn = NoHistory\<rparr> :: int tensor"
  let ?s1 = "toy_self (EncoderName ''cpc_encoder'') tensor_net ''cifar10'' True"
  let ?s2 = "toy_self (EncoderModule list_net) list_net ''cifar10'' True"
  have a1: "shape two_images = [2, 1, 1, 1, 1]" by (simp add: two_images_def)
  have a2: "view two_images [- 1, int 1, int 1, int 1] = Inr ?x"
    by (simp add: view_def two_images_def numel_def)
  have a3: "names_cpc_encoder (hp_encoder ?s1)" by (simp add: toy_self_def)
  have a4: "encoder ?s1 ?x = Inr (Tensor two_features)" by (simp add: toy_self_def tensor_net_def)
  have a5: "\<not> names_cpc_encoder (hp_encoder ?s2)" by (simp add: toy_self_def)
  have a6: "encoder ?s2 ?x = Inr (Tuple (Tensor two_features # []))" by (simp add: toy_self_def list_net_def)
  have r: "recover_z_shape (two_features\<lparr>grad_fn := Backward ''encoder'' [Parameters ''encoder'', NoHistory]\<rparr>) 2 =
      Inr \<lparr>shape = [2, 2, 1, 1], data = [1, 2, 3, 4],
           grad_fn = Backward ''encoder'' [Parameters ''encoder'', NoHistory]\<rparr>"
    unfolding two_features_def by code_simp
  note th = forward_encoder_output_forms [OF a1 a2 a3 a4 a5 a6, of True]
  have e1: "forward ?s1 True (Tensor two_images) = forward ?s2 True (Tensor two_images)"
    using th by (rule conjunct1)
  have "forward ?s1 True (Tensor two_images) =
      andthen (recover_z_shape (two_features\<lparr>grad_fn := track True ''encoder'' [Parameters ''encoder'', grad_fn ?x]\<rparr>) 2)
        (\<lambda>Z. Inr (Z, [(True, ?x)]))"
    using th by (rule conjunct2)
  then have e2: "forward ?s1 True (Tensor two_images) =
     Inr (\<lparr>shape = [2, 2, 1, 1], data = [1, 2, 3, 4],
           grad_fn = Backward ''encoder'' [Parameters ''encoder'', NoHistory]\<rparr>, [(True, ?x)])"
    by (simp add: track_def r)
  show ?thesis using e1 e2 by simp
qed

text \<open>
  The claim as stated fails for a module instance that returns a single tensor: the
  same network gives the grid of shape \<open>(2, 2, 1, 1)\<close> when configured as
  \<open>'cpc_encoder'\<close>, and, passed as a module, has its output indexed with \<open>[0]\<close>, so
  that only the features of the first patch are reassembled.
\<close>

theorem forward_module_instance_counterexample:
  "forward (toy_self (EncoderName ''cpc_encoder'') tensor_net ''cifar10'' True) False (Tensor two_images) =
     Inr (\<lparr>shape = [2, 2, 1, 1], data = [1, 2, 3, 4], grad_fn = NoHistory\<rparr>,
          [(False, \<lparr>shape = [2, 1, 1, 1], data = [0, 0], grad_fn = NoHistory\<rparr>)]) \<and>
   forward (toy_self (EncoderModule tensor_net) tensor_net ''cifar10'' True) False (Tensor two_images) =
     Inr (\<lparr>shape = [2, 1, 1, 1], data = [1, 2], grad_fn = NoHistory\<rparr>,
          [(False, \<lparr>shape = [2, 1, 1, 1], data = [0, 0], grad_fn = NoHistory\<rparr>)])"
  unfolding toy_self_def tensor_net_def two_images_def two_features_def
  by code_simp

subsection \<open>The constructor\<close>

lemma shape_zeros [simp]: "shape (zeros s) = s"
  by (simp add: zeros_def)

lemma grad_fn_zeros [simp]: "grad_fn (zeros s) = NoHistory"
  by (simp add: zeros_def)

lemma first_with_history:
  assumes "(if names_cpc_encoder e then Inr out else getitem out 0) = Inr (Tensor t)"
  shows "(if \<not> names_cpc_encoder e then getitem (with_history h out) 0 else Inr (with_history h out)) =
      Inr (Tensor (t\<lparr>grad_fn := h\<rparr>))"
  using assms by (auto simp: getitem_with_history split: if_splits)

lemma compute_final_nb_c_eq:
  assumes "encoder self (zeros [2 * 49, 3, ps, ps]) = Inr out"
    and "(if names_cpc_encoder (hp_encoder self) then Inr out else getitem out 0) = Inr (Tensor t)"
  shows "compute_final_nb_c self ge ps =
     andthen (recover_z_shape (t\<lparr>grad_fn := track ge ''encoder'' [Parameters ''encoder'', NoHistory]\<rparr>) 2)
       (\<lambda>G. case shape G of [b, c, h, w] \<Rightarrow> Inr ((c, h), [(ge, zeros [2 * 49, 3, ps, ps])])
             | _ \<Rightarrow> Inl ValueError)"
  unfolding compute_final_nb_c_def Let_def call_encoder_def assms(1) andthen_Inr prod.case
    first_with_history [OF assms(2)] grad_fn_zeros
  by (simp add: as_tensor_def)

lemma compute_final_nb_c_calls:
  assumes "compute_final_nb_c self ge ps = Inr (ch, calls)"
  shows "calls = [(ge, zeros [2 * 49, 3, ps, ps])]"
  using assms unfolding compute_final_nb_c_def Let_def call_encoder_def andthen_def
  by (simp split: sum.split_asm list.split_asm prod.split_asm)

lemma load_pretrained_eq:
  "load_pretrained enc =
     Inr (if key_of enc = Str ''resnet18'' then [LoadedWeights ''CPCV2-resnet18'']
          else [Warned (str_of enc @ '' not yet available'')])"
  by (cases enc) (auto simp: load_pretrained_def set_contains_def set_lookup_def)


lemma init_eq:
  assumes net: "(case arg_encoder args of EncoderName name \<Rightarrow> init_encoder ext args name
                 | EncoderModule m \<Rightarrow> Inr m) = Inr net"
    and out: "net (zeros [2 * 49, 3, arg_patch_size args, arg_patch_size args]) = Inr out"
    and first: "(if names_cpc_encoder (arg_encoder args) then Inr out else getitem out 0) = Inr (Tensor t)"
    and rec: "recover_z_shape t 2 = Inr G"
    and shp: "shape G = [b, c, h, w]"
  shows "\<exists>self effects.
      init ext args ge =
        Inr (self, [(ge, zeros [2 * 49, 3, arg_patch_size args, arg_patch_size args])], effects) \<and>
      hp_encoder self = arg_encoder args \<and> encoder self = net \<and>
      info_nce self =
        Some (CPCTask ext \<lparr>num_input_channels = c, target_dim = 64, embed_scale = 1 / 10\<rparr>) \<and>
      online_evaluator self =
        (arg_online_ft args \<or> (case arg_pretrained args of None \<Rightarrow> False | Some s \<Rightarrow> s \<noteq> [])) \<and>
      non_linear_evaluator self =
        (if online_evaluator self
         then Some (SSLEvaluator ext \<lparr>n_input = c * h * h, n_classes = datamodule_num_classes args,
                      dropout_p = 2 / 10, n_hidden = 1024\<rparr>)
         else None)"
proof -
  let ?ps = "arg_patch_size args"
  let ?H = "track ge ''encoder'' [Parameters ''encoder'', NoHistory]"
  have cf: "compute_final_nb_c self ge ?ps = Inr ((c, h), [(ge, zeros [2 * 49, 3, ?ps, ?ps])])"
    if "encoder self = net" "hp_encoder self = arg_encoder args" for self :: "'a cpcv2"
  proof -
    have "compute_final_nb_c self ge ?ps =
        andthen (recover_z_shape (t\<lparr>grad_fn := ?H\<rparr>) 2)
         (\<lambda>G. case shape G of [b, c, h, w] \<Rightarrow> Inr ((c, h), [(ge, zeros [2 * 49, 3, ?ps, ?ps])])
               | _ \<Rightarrow> Inl ValueError)"
      using out first that by (intro compute_final_nb_c_eq) simp_all
    then show ?thesis by (simp add: recover_z_shape_history rec shp)
  qed
  obtain effects where lp: "load_pretrained (arg_encoder args) = Inr effects"
    using load_pretrained_eq by blast
  show ?thesis
    unfolding init_def Let_def net andthen_Inr
    by (auto simp: cf lp)
qed

text \<open>
  C8. The constructor calls the encoder exactly once, on the zero-filled batch of
  \<open>2 * 49\<close> patches; with \<open>(2, Cz, h, h)\<close> the shape of the reassembled output, the
  contrastive task is constructed for \<open>Cz\<close> input channels and, when the probe is
  enabled, the probe for \<open>Cz * h * h\<close> inputs.
\<close>

theorem init_capability_probe:
  assumes "(case arg_encoder args of EncoderName name \<Rightarrow> init_encoder ext args name
            | EncoderModule m \<Rightarrow> Inr m) = Inr net"
    and "net (zeros [2 * 49, 3, arg_patch_size args, arg_patch_size args]) = Inr out"
    and "(if names_cpc_encoder (arg_encoder args) then Inr out else getitem out 0) = Inr (Tensor t)"
    and "recover_z_shape t 2 = Inr G"
  shows "\<exists>Cz h self effects.
      shape G = [2, Cz, h, h] \<and>
      init ext args ge =
        Inr (self, [(ge, zeros [2 * 49, 3, arg_patch_size args, arg_patch_size args])], effects) \<and>
      info_nce self =
        Some (CPCTask ext \<lparr>num_input_channels = Cz, target_dim = 64, embed_scale = 1 / 10\<rparr>) \<and>
      online_evaluator self =
        (arg_online_ft args \<or> (case arg_pretrained args of None \<Rightarrow> False | Some s \<Rightarrow> s \<noteq> [])) \<and>
      non_linear_evaluator self =
        (if online_evaluator self
         then Some (SSLEvaluator ext \<lparr>n_input = Cz * h * h, n_classes = datamodule_num_classes args,
                      dropout_p = 2 / 10, n_hidden = 1024\<rparr>)
         else None)"
proof -
  obtain Cz h where s: "shape G = [2, Cz, h, h]"
    using shape_recover_z_shape [OF assms(4)] by blast
  show ?thesis
    using init_eq [OF assms s, of ge] s by blast
qed

text \<open>
  C9. Whatever the patch size and the patch overlap, an encoder that returns one
  feature vector of \<open>c\<close> channels per patch meets the dummy batch of \<open>2 * 49\<close> patches
  in the constructor, so that the grid side is \<open>int_sqrt 49 = 7\<close> and the probe is
  constructed for \<open>c * 7 * 7\<close> inputs.
\<close>

theorem init_probe_grid_is_7_by_7:
  assumes "(case arg_encoder args of EncoderName name \<Rightarrow> init_encoder ext args name
            | EncoderModule m \<Rightarrow> Inr m) = Inr net"
    and "net (zeros [2 * 49, 3, arg_patch_size args, arg_patch_size args]) = Inr out"
    and "(if names_cpc_encoder (arg_encoder args) then Inr out else getitem out 0) = Inr (Tensor t)"
    and "shape t = [2 * 49, c, 1, 1]" and "1 \<le> c"
  shows "\<exists>G self calls effects.
      recover_z_shape t 2 = Inr G \<and> shape G = [2, c, 7, 7] \<and>
      init ext args ge = Inr (self, calls, effects) \<and>
      info_nce self =
        Some (CPCTask ext \<lparr>num_input_channels = c, target_dim = 64, embed_scale = 1 / 10\<rparr>) \<and>
      online_evaluator self =
        (arg_online_ft args \<or> (case arg_pretrained args of None \<Rightarrow> False | Some s \<Rightarrow> s \<noteq> [])) \<and>
      non_linear_evaluator self =
        (if online_evaluator self
         then Some (SSLEvaluator ext \<lparr>n_input = c * 7 * 7, n_classes = datamodule_num_classes args,
                      dropout_p = 2 / 10, n_hidden = 1024\<rparr>)
         else None)"
proof -
  have sq: "int_sqrt 49 = 7" using int_sqrt_square [of 7] by simp
  have "recover_z_shape t 2 =
     (if (c * 49) mod (int_sqrt 49 * int_sqrt 49) = 0
      then Inr (t\<lparr>shape := [2, (c * 49) div (int_sqrt 49 * int_sqrt 49), int_sqrt 49, int_sqrt 49],
                data := regrouped (data t) 2 49 c\<rparr>)
      else Inl RuntimeError)"
    using assms(4,5) by (intro recover_z_shape_flat) simp_all
  then have rec: "recover_z_shape t 2 = Inr (t\<lparr>shape := [2, c, 7, 7], data := regrouped (data t) 2 49 c\<rparr>)"
    by (simp add: sq)
  have s: "shape (t\<lparr>shape := [2, c, 7, 7], data := regrouped (data t) 2 49 c\<rparr>) = [2, c, 7, 7]"
    by simp
  show ?thesis
    using init_eq [OF assms(1,2,3) rec s, of ge] rec s by blast
qed


lemma toy_recover:
  "recover_z_shape (toy_features (2 * 49)) 2 =
     Inr ((toy_features (2 * 49))\<lparr>shape := [2, 5, 7, 7],
            data := regrouped (data (toy_features (2 * 49))) 2 49 5\<rparr>)"
proof -
  have sq: "int_sqrt 49 = 7" using int_sqrt_square [of 7] by simp
  have "recover_z_shape (toy_features (2 * 49)) 2 =
     (if (5 * 49) mod (int_sqrt 49 * int_sqrt 49) = 0
      then Inr ((toy_features (2 * 49))\<lparr>shape := [2, (5 * 49) div (int_sqrt 49 * int_sqrt 49), int_sqrt 49, int_sqrt 49],
                data := regrouped (data (toy_features (2 * 49))) 2 49 5\<rparr>)
      else Inl RuntimeError)"
    by (intro recover_z_shape_flat) (simp_all add: toy_features_def)
  then show ?thesis by (simp add: sq)
qed

theorem init_capability_probe_witness:
  "\<exists>self effects.
      init toy_externals (toy_args ''cpc_encoder'') True =
        Inr (self, [(True, zeros [2 * 49, 3, 8, 8])], effects) \<and>
      info_nce self =
        Some (CPCTask toy_externals \<lparr>num_input_channels = 5, target_dim = 64, embed_scale = 1 / 10\<rparr>) \<and>
      online_evaluator self \<and>
      non_linear_evaluator self =
        Some (SSLEvaluator toy_externals \<lparr>n_input = 5 * 7 * 7, n_classes = 10,
                dropout_p = 2 / 10, n_hidden = 1024\<rparr>)"
proof -
  let ?args = "toy_args ''cpc_encoder''"
  have a1: "(case arg_encoder ?args of EncoderName name \<Rightarrow> init_encoder toy_externals ?args name
            | EncoderModule m \<Rightarrow> Inr m) = Inr toy_net"
    by (simp add: toy_args_def init_encoder_def toy_externals_def)
  have a2: "toy_net (zeros [2 * 49, 3, arg_patch_size ?args, arg_patch_size ?args]) =
      Inr (Tensor (toy_features (2 * 49)))"
    by (simp add: toy_net_def)
  have a3: "(if names_cpc_encoder (arg_encoder ?args) then Inr (Tensor (toy_features (2 * 49)))
             else getitem (Tensor (toy_features (2 * 49))) 0) = Inr (Tensor (toy_features (2 * 49)))"
    by (simp add: toy_args_def)
  from init_capability_probe [OF a1 a2 a3 toy_recover, of True]
  show ?thesis by (auto simp: toy_args_def)
qed

theorem init_probe_grid_is_7_by_7_witness:
  "\<exists>G self calls effects.
      recover_z_shape (toy_features (2 * 49)) 2 = Inr G \<and> shape G = [2, 5, 7, 7] \<and>
      init toy_externals (toy_args ''resnet50'') False = Inr (self, calls, effects) \<and>
      info_nce self =
        Some (CPCTask toy_externals \<lparr>num_input_channels = 5, target_dim = 64, embed_scale = 1 / 10\<rparr>) \<and>
      online_evaluator self \<and>
      non_linear_evaluator self =
        Some (SSLEvaluator toy_externals \<lparr>n_input = 5 * 7 * 7, n_classes = 10,
                dropout_p = 2 / 10, n_hidden = 1024\<rparr>)"
proof -
  let ?args = "toy_args ''resnet50''"
  have a1: "(case arg_encoder ?args of EncoderName name \<Rightarrow> init_encoder toy_externals ?args name
            | EncoderModule m \<Rightarrow> Inr m) = Inr toy_list_net"
    by (simp add: toy_args_def init_encoder_def toy_externals_def)
  have a2: "toy_list_net (zeros [2 * 49, 3, arg_patch_size ?args, arg_patch_size ?args]) =
      Inr (Tuple [Tensor (toy_features (2 * 49))])"
    by (simp add: toy_list_net_def toy_net_def)
  have a3: "(if names_cpc_encoder (arg_encoder ?args) then Inr (Tuple [Tensor (toy_features (2 * 49))])
             else getitem (Tuple [Tensor (toy_features (2 * 49))]) 0) = Inr (Tensor (toy_features (2 * 49)))"
    by (simp add: toy_args_def getitem_def)
  have a4: "shape (toy_features (2 * 49)) = [2 * 49, 5, 1, 1]" by (simp add: toy_features_def)
  have a5: "(1::nat) \<le> 5" by simp
  from init_probe_grid_is_7_by_7 [OF a1 a2 a3 a4 a5, of False]
  show ?thesis by (auto simp: toy_args_def)
qed


subsection \<open>Pretrained weights\<close>

text \<open>
  C10 (as amended). For every encoder name other than \<open>'resnet18'\<close>, \<open>load_pretrained\<close>
  loads no weights and emits the warning "<name> not yet available"; weights are
  loaded for \<open>'resnet18'\<close> and for nothing else. The fallback guard asks whether the set
  of available weights is a member of itself, which Python answers with False without
  raising, so the guard always holds.
\<close>

theorem load_pretrained_only_resnet18:
  "(name \<noteq> ''resnet18'' \<longrightarrow>
      load_pretrained (EncoderName name :: 'a encoder_arg) =
        Inr [Warned (name @ '' not yet available'')]) \<and>
   load_pretrained (EncoderName ''resnet18'' :: 'a encoder_arg) = Inr [LoadedWeights ''CPCV2-resnet18''] \<and>
   (\<forall>effects w. load_pretrained (enc :: 'a encoder_arg) = Inr effects \<longrightarrow> LoadedWeights w \<in> set effects \<longrightarrow>
      enc = EncoderName ''resnet18'') \<and>
   set_contains [''resnet18''] (SetObject [''resnet18'']) = Inr False"
proof -
  have "enc = EncoderName ''resnet18''" if "key_of enc = Str ''resnet18''"
    using that by (cases enc) simp_all
  then show ?thesis
    by (auto simp: load_pretrained_eq set_contains_def set_lookup_def split: if_splits)
qed

theorem load_pretrained_only_resnet18_witness:
  "load_pretrained (EncoderName ''resnet50'' :: int encoder_arg) = Inr [Warned ''resnet50 not yet available'']
   \<and> load_pretrained (EncoderName ''resnet18'' :: int encoder_arg) = Inr [LoadedWeights ''CPCV2-resnet18'']"
  using load_pretrained_only_resnet18
    [where name = "''resnet50''" and enc = "EncoderName ''resnet50'' :: int encoder_arg"]
  by simp

text \<open>
  The claim as stated fails: for \<open>'resnet50'\<close> no TypeError is raised, and the warning
  is emitted.
\<close>

theorem load_pretrained_warns_counterexample:
  "load_pretrained (EncoderName ''resnet50'' :: int encoder_arg) \<noteq> Inl TypeError \<and>
   load_pretrained (EncoderName ''resnet50'' :: int encoder_arg) = Inr [Warned ''resnet50 not yet available'']"
  by code_simp

subsection \<open>Epoch-level aggregation\<close>

lemma collect_eq:
  "\<forall>x \<in> set outputs. x key \<noteq> None \<Longrightarrow> collect outputs key = Inr (map (\<lambda>x. the (x key)) outputs)"
  by (induction outputs) auto

lemma metrics_mean_eq:
  assumes "outputs \<noteq> []" and "\<forall>x \<in> set outputs. x key \<noteq> None"
  shows "metrics_mean outputs key =
     Inr (sum_list (map (\<lambda>x. the (x key)) outputs) / real (length outputs))"
  using assms by (simp add: metrics_mean_def collect_eq)

text \<open>
  C7. Epoch-level validation aggregation. For a non-empty list of step outputs that
  carry the step metrics, \<open>validation_epoch_end\<close> returns the arithmetic mean of the
  per-step \<open>'val_nce'\<close> values as \<open>'val_loss'\<close> and logs it as \<open>'val_nce_loss'\<close>; when the
  probe is enabled it also logs the means of \<open>'mlp_acc'\<close> and \<open>'mlp_loss'\<close> as
  \<open>'val_mlp_acc'\<close> and \<open>'val_mlp_loss'\<close>, and otherwise logs nothing else.
\<close>

theorem validation_epoch_end_means:
  assumes "outputs \<noteq> []"
    and "\<forall>x \<in> set outputs. x ''val_nce'' \<noteq> None"
    and "online_evaluator self \<longrightarrow>
           (\<forall>x \<in> set outputs. x ''mlp_acc'' \<noteq> None \<and> x ''mlp_loss'' \<noteq> None)"
  shows "\<exists>r. validation_epoch_end self outputs = Inr r \<and>
      val_loss r = sum_list (map (\<lambda>x. the (x ''val_nce'')) outputs) / real (length outputs) \<and>
      epoch_log r ''val_nce_loss'' = Some (val_loss r) \<and>
      progress_bar r = epoch_log r \<and>
      (if online_evaluator self
       then epoch_log r ''val_mlp_acc'' =
              Some (sum_list (map (\<lambda>x. the (x ''mlp_acc'')) outputs) / real (length outputs)) \<and>
            epoch_log r ''val_mlp_loss'' =
              Some (sum_list (map (\<lambda>x. the (x ''mlp_loss'')) outputs) / real (length outputs)) \<and>
            dom (epoch_log r) = {''val_nce_loss'', ''val_mlp_acc'', ''val_mlp_loss''}
       else dom (epoch_log r) = {''val_nce_loss''})"
proof -
  let ?m = "\<lambda>key. sum_list (map (\<lambda>x. the (x key)) outputs) / real (length outputs)"
  have nce: "metrics_mean outputs ''val_nce'' = Inr (?m ''val_nce'')"
    by (rule metrics_mean_eq [OF assms(1,2)])
  show ?thesis
  proof (cases "online_evaluator self")
    case True
    then have k: "\<forall>x \<in> set outputs. x ''mlp_acc'' \<noteq> None" "\<forall>x \<in> set outputs. x ''mlp_loss'' \<noteq> None"
      using assms(3) by auto
    have acc: "metrics_mean outputs ''mlp_acc'' = Inr (?m ''mlp_acc'')"
      by (rule metrics_mean_eq [OF assms(1) k(1)])
    have lss: "metrics_mean outputs ''mlp_loss'' = Inr (?m ''mlp_loss'')"
      by (rule metrics_mean_eq [OF assms(1) k(2)])
    let ?log = "[''val_nce_loss'' \<mapsto> ?m ''val_nce'', ''val_mlp_acc'' \<mapsto> ?m ''mlp_acc'',
        ''val_mlp_loss'' \<mapsto> ?m ''mlp_loss'']"
    have r: "validation_epoch_end self outputs =
        Inr \<lparr>val_loss = ?m ''val_nce'', epoch_log = ?log, progress_bar = ?log\<rparr>"
      unfolding validation_epoch_end_def Let_def nce acc lss andthen_Inr using True by simp
    have l1: "?log ''val_nce_loss'' = Some (?m ''val_nce'')" by simp
    have l2: "?log ''val_mlp_acc'' = Some (?m ''mlp_acc'')" by simp
    have l3: "?log ''val_mlp_loss'' = Some (?m ''mlp_loss'')" by simp
    have d: "dom ?log = {''val_nce_loss'', ''val_mlp_acc'', ''val_mlp_loss''}"
      by (simp only: dom_fun_upd dom_empty option.distinct if_False) blast
    show ?thesis
      unfolding r using True l1 l2 l3 d by (intro exI [of _ "\<lparr>val_loss = ?m ''val_nce'', epoch_log = ?log, progress_bar = ?log\<rparr>"]) (simp only: epoch_result.simps if_True simp_thms)
  next
    case False
    let ?log = "[''val_nce_loss'' \<mapsto> ?m ''val_nce'']"
    have r: "validation_epoch_end self outputs =
        Inr \<lparr>val_loss = ?m ''val_nce'', epoch_log = ?log, progress_bar = ?log\<rparr>"
      unfolding validation_epoch_end_def Let_def nce andthen_Inr using False by simp
    have l1: "?log ''val_nce_loss'' = Some (?m ''val_nce'')" by simp
    have d: "dom ?log = {''val_nce_loss''}" by simp
    show ?thesis
      unfolding r using False l1 d by (intro exI [of _ "\<lparr>val_loss = ?m ''val_nce'', epoch_log = ?log, progress_bar = ?log\<rparr>"]) (simp only: epoch_result.simps if_False simp_thms)
  qed
qed

theorem validation_epoch_end_means_witness:
  "\<exists>r. validation_epoch_end (toy_self (EncoderName ''cpc_encoder'') tensor_net ''cifar10'' True)
        [[''val_nce'' \<mapsto> 1, ''mlp_acc'' \<mapsto> 0, ''mlp_loss'' \<mapsto> 2],
         [''val_nce'' \<mapsto> 3, ''mlp_acc'' \<mapsto> 1, ''mlp_loss'' \<mapsto> 4]] = Inr r \<and>
      val_loss r = 2 \<and> epoch_log r ''val_nce_loss'' = Some 2 \<and>
      epoch_log r ''val_mlp_acc'' = Some (1 / 2) \<and> epoch_log r ''val_mlp_loss'' = Some 3"
proof -
  let ?self = "toy_self (EncoderName ''cpc_encoder'') tensor_net ''cifar10'' True"
  let ?o1 = "[''val_nce'' \<mapsto> 1, ''mlp_acc'' \<mapsto> 0, ''mlp_loss'' \<mapsto> (2::real)]"
  let ?o2 = "[''val_nce'' \<mapsto> 3, ''mlp_acc'' \<mapsto> 1, ''mlp_loss'' \<mapsto> (4::real)]"
  let ?outs = "[?o1, ?o2]"
  have v: "?o1 ''val_nce'' = Some 1" "?o2 ''val_nce'' = Some 3" by simp_all
  have a: "?o1 ''mlp_acc'' = Some 0" "?o2 ''mlp_acc'' = Some 1" by simp_all
  have l: "?o1 ''mlp_loss'' = Some 2" "?o2 ''mlp_loss'' = Some 4" by simp_all
  have a1: "?outs \<noteq> []" by simp
  have a2: "\<forall>x \<in> set ?outs. x ''val_nce'' \<noteq> None"
    using v by (simp only: list.set ball_simps) simp
  have on: "online_evaluator ?self" by (simp add: toy_self_def)
  have a3: "online_evaluator ?self \<longrightarrow>
           (\<forall>x \<in> set ?outs. x ''mlp_acc'' \<noteq> None \<and> x ''mlp_loss'' \<noteq> None)"
    using a l by (simp only: list.set ball_simps) simp
  have m1: "sum_list (map (\<lambda>x. the (x ''val_nce'')) ?outs) / real (length ?outs) = 2"
    by (simp only: list.map sum_list.Cons sum_list.Nil v option.sel list.size) simp
  have m2: "sum_list (map (\<lambda>x. the (x ''mlp_acc'')) ?outs) / real (length ?outs) = 1 / 2"
    by (simp only: list.map sum_list.Cons sum_list.Nil a option.sel list.size) simp
  have m3: "sum_list (map (\<lambda>x. the (x ''mlp_loss'')) ?outs) / real (length ?outs) = 3"
    by (simp only: list.map sum_list.Cons sum_list.Nil l option.sel list.size) simp
  from validation_epoch_end_means [OF a1 a2 a3]
  obtain r where r: "validation_epoch_end ?self ?outs = Inr r"
    and r1: "val_loss r = sum_list (map (\<lambda>x. the (x ''val_nce'')) ?outs) / real (length ?outs)"
    and r2: "epoch_log r ''val_nce_loss'' = Some (val_loss r)"
    and r3: "epoch_log r ''val_mlp_acc'' =
              Some (sum_list (map (\<lambda>x. the (x ''mlp_acc'')) ?outs) / real (length ?outs))"
    and r4: "epoch_log r ''val_mlp_loss'' =
              Some (sum_list (map (\<lambda>x. the (x ''mlp_loss'')) ?outs) / real (length ?outs))"
    unfolding if_P [OF on] by blast
  show ?thesis
    using r r1 r2 r3 r4 unfolding m1 m2 m3 by (intro exI [of _ r]) simp
qed

subsection \<open>Training and validation steps\<close>

lemma andthenE:
  assumes "andthen r f = Inr v"
  obtains u where "r = Inr u" and "f u = Inr v"
  using assms by (cases r) simp_all

lemma dataset_flagE:
  assumes "(case hp_dataset self of None \<Rightarrow> Inl AttributeError
            | Some dataset \<Rightarrow> Inr (dataset = ''stl10'')) = Inr stl10"
  obtains d where "hp_dataset self = Some d" and "stl10 = (d = ''stl10'')"
  using assms by (cases "hp_dataset self") auto

lemma training_step_contrastive:
  assumes "training_step ext self ge batch = Inr (r, calls)"
  obtains d labeled_batch batch1 img_1 y Z calls1 nce_loss where
    "hp_dataset self = Some d"
    "(if d = ''stl10'' then getitem batch 1 else Inr batch) = Inr labeled_batch"
    "(if d = ''stl10'' then getitem batch 0 else Inr batch) = Inr batch1"
    "unpack2 batch1 = Inr (img_1, y)"
    "forward self ge img_1 = Inr (Z, calls1)"
    "call_info_nce self ge Z = Inr nce_loss"
    "(if online_evaluator self
      then
        andthen (if d = ''stl10'' then unpack2 labeled_batch else Inr (img_1, y)) (\<lambda>(img_1, y).
        andthen (forward self False img_1) (\<lambda>(Z, calls2).
        andthen (size_at Z 0) (\<lambda>b0.
        andthen (view (detach Z) [int b0, - 1]) (\<lambda>z_in.
        andthen (call_non_linear_evaluator self ge z_in) (\<lambda>mlp_preds.
        andthen (call_cross_entropy ext ge mlp_preds y) (\<lambda>mlp_loss.
        Inr (\<lparr>loss = add_scalars ge nce_loss mlp_loss,
              log_dict = [''train_nce_loss'' \<mapsto> nce_loss, ''train_mlp_loss'' \<mapsto> mlp_loss]\<rparr>,
             calls1 @ calls2)))))))
      else Inr (\<lparr>loss = nce_loss, log_dict = [''train_nce_loss'' \<mapsto> nce_loss]\<rparr>, calls1))
     = Inr (r, calls)"
proof -
  from assms [unfolded training_step_def Let_def]
  obtain stl10 where f: "(case hp_dataset self of None \<Rightarrow> Inl AttributeError
            | Some dataset \<Rightarrow> Inr (dataset = ''stl10'')) = Inr stl10"
    and 1: "andthen (if stl10 then getitem batch 1 else Inr batch) (\<lambda>labeled_batch.
     andthen (if stl10 then getitem batch 0 else Inr batch) (\<lambda>batch.
     andthen (unpack2 batch) (\<lambda>(img_1, y).
     andthen (forward self ge img_1) (\<lambda>(Z, calls1).
     andthen (call_info_nce self ge Z) (\<lambda>nce_loss.
     if online_evaluator self
     then
       andthen (if stl10 then unpack2 labeled_batch else Inr (img_1, y)) (\<lambda>(img_1, y).
       andthen (forward self False img_1) (\<lambda>(Z, calls2).
       andthen (size_at Z 0) (\<lambda>b0.
       andthen (view (detach Z) [int b0, - 1]) (\<lambda>z_in.
       andthen (call_non_linear_evaluator self ge z_in) (\<lambda>mlp_preds.
       andthen (call_cross_entropy ext ge mlp_preds y) (\<lambda>mlp_loss.
       Inr (\<lparr>loss = add_scalars ge nce_loss mlp_loss,
             log_dict = [''train_nce_loss'' \<mapsto> nce_loss, ''train_mlp_loss'' \<mapsto> mlp_loss]\<rparr>, calls1 @ calls2)))))))
     else Inr (\<lparr>loss = nce_loss, log_dict = [''train_nce_loss'' \<mapsto> nce_loss]\<rparr>, calls1)))))) = Inr (r, calls)"
    by (rule andthenE)
  from f obtain d where d: "hp_dataset self = Some d" and s: "stl10 = (d = ''stl10'')"
    by (rule dataset_flagE)
  from 1 obtain labeled_batch where lb: "(if stl10 then getitem batch 1 else Inr batch) = Inr labeled_batch"
    and 2: "andthen (if stl10 then getitem batch 0 else Inr batch) (\<lambda>batch.
     andthen (unpack2 batch) (\<lambda>(img_1, y).
     andthen (forward self ge img_1) (\<lambda>(Z, calls1).
     andthen (call_info_nce self ge Z) (\<lambda>nce_loss.
     if online_evaluator self
     then
       andthen (if stl10 then unpack2 labeled_batch else Inr (img_1, y)) (\<lambda>(img_1, y).
       andthen (forward self False img_1) (\<lambda>(Z, calls2).
       andthen (size_at Z 0) (\<lambda>b0.
       andthen (view (detach Z) [int b0, - 1]) (\<lambda>z_in.
       andthen (call_non_linear_evaluator self ge z_in) (\<lambda>mlp_preds.
       andthen (call_cross_entropy ext ge mlp_preds y) (\<lambda>mlp_loss.
       Inr (\<lparr>loss = add_scalars ge nce_loss mlp_loss,
             log_dict = [''train_nce_loss'' \<mapsto> nce_loss, ''train_mlp_loss'' \<mapsto> mlp_loss]\<rparr>, calls1 @ calls2)))))))
     else Inr (\<lparr>loss = nce_loss, log_dict = [''train_nce_loss'' \<mapsto> nce_loss]\<rparr>, calls1))))) = Inr (r, calls)"
    by (rule andthenE)
  from 2 obtain batch1 where b1: "(if stl10 then getitem batch 0 else Inr batch) = Inr batch1"
    and 3: "andthen (unpack2 batch1) (\<lambda>(img_1, y).
     andthen (forward self ge img_1) (\<lambda>(Z, calls1).
     andthen (call_info_nce self ge Z) (\<lambda>nce_loss.
     if online_evaluator self
     then
       andthen (if stl10 then unpack2 labeled_batch else Inr (img_1, y)) (\<lambda>(img_1, y).
       andthen (forward self False img_1) (\<lambda>(Z, calls2).
       andthen (size_at Z 0) (\<lambda>b0.
       andthen (view (detach Z) [int b0, - 1]) (\<lambda>z_in.
       andthen (call_non_linear_evaluator self ge z_in) (\<lambda>mlp_preds.
       andthen (call_cross_entropy ext ge mlp_preds y) (\<lambda>mlp_loss.
       Inr (\<lparr>loss = add_scalars ge nce_loss mlp_loss,
             log_dict = [''train_nce_loss'' \<mapsto> nce_loss, ''train_mlp_loss'' \<mapsto> mlp_loss]\<rparr>, calls1 @ calls2)))))))
     else Inr (\<lparr>loss = nce_loss, log_dict = [''train_nce_loss'' \<mapsto> nce_loss]\<rparr>, calls1)))) = Inr (r, calls)"
    by (rule andthenE)
  from 3 obtain p where up: "unpack2 batch1 = Inr p"
    and 4: "(case p of (img_1, y) \<Rightarrow>
     andthen (forward self ge img_1) (\<lambda>(Z, calls1).
     andthen (call_info_nce self ge Z) (\<lambda>nce_loss.
     if online_evaluator self
     then
       andthen (if stl10 then unpack2 labeled_batch else Inr (img_1, y)) (\<lambda>(img_1, y).
       andthen (forward self False img_1) (\<lambda>(Z, calls2).
       andthen (size_at Z 0) (\<lambda>b0.
       andthen (view (detach Z) [int b0, - 1]) (\<lambda>z_in.
       andthen (call_non_linear_evaluator self ge z_in) (\<lambda>mlp_preds.
       andthen (call_cross_entropy ext ge mlp_preds y) (\<lambda>mlp_loss.
       Inr (\<lparr>loss = add_scalars ge nce_loss mlp_loss,
             log_dict = [''train_nce_loss'' \<mapsto> nce_loss, ''train_mlp_loss'' \<mapsto> mlp_loss]\<rparr>, calls1 @ calls2)))))))
     else Inr (\<lparr>loss = nce_loss, log_dict = [''train_nce_loss'' \<mapsto> nce_loss]\<rparr>, calls1)))) = Inr (r, calls)"
    by (rule andthenE)
  obtain img_1 y where p: "p = (img_1, y)" by (cases p)
  from 4 [unfolded p prod.case]
  obtain q where fw: "forward self ge img_1 = Inr q"
    and 5: "(case q of (Z, calls1) \<Rightarrow>
     andthen (call_info_nce self ge Z) (\<lambda>nce_loss.
     if online_evaluator self
     then
       andthen (if stl10 then unpack2 labeled_batch else Inr (img_1, y)) (\<lambda>(img_1, y).
       andthen (forward self False img_1) (\<lambda>(Z, calls2).
       andthen (size_at Z 0) (\<lambda>b0.
       andthen (view (detach Z) [int b0, - 1]) (\<lambda>z_in.
       andthen (call_non_linear_evaluator self ge z_in) (\<lambda>mlp_preds.
       andthen (call_cross_entropy ext ge mlp_preds y) (\<lambda>mlp_loss.
       Inr (\<lparr>loss = add_scalars ge nce_loss mlp_loss,
             log_dict = [''train_nce_loss'' \<mapsto> nce_loss, ''train_mlp_loss'' \<mapsto> mlp_loss]\<rparr>, calls1 @ calls2)))))))
     else Inr (\<lparr>loss = nce_loss, log_dict = [''train_nce_loss'' \<mapsto> nce_loss]\<rparr>, calls1))) = Inr (r, calls)"
    by (rule andthenE)
  obtain Z calls1 where q: "q = (Z, calls1)" by (cases q)
  from 5 [unfolded q prod.case]
  obtain nce_loss where nce: "call_info_nce self ge Z = Inr nce_loss"
    and 6: "(if online_evaluator self
     then
       andthen (if stl10 then unpack2 labeled_batch else Inr (img_1, y)) (\<lambda>(img_1, y).
       andthen (forward self False img_1) (\<lambda>(Z, calls2).
       andthen (size_at Z 0) (\<lambda>b0.
       andthen (view (detach Z) [int b0, - 1]) (\<lambda>z_in.
       andthen (call_non_linear_evaluator self ge z_in) (\<lambda>mlp_preds.
       andthen (call_cross_entropy ext ge mlp_preds y) (\<lambda>mlp_loss.
       Inr (\<lparr>loss = add_scalars ge nce_loss mlp_loss,
             log_dict = [''train_nce_loss'' \<mapsto> nce_loss, ''train_mlp_loss'' \<mapsto> mlp_loss]\<rparr>, calls1 @ calls2)))))))
     else Inr (\<lparr>loss = nce_loss, log_dict = [''train_nce_loss'' \<mapsto> nce_loss]\<rparr>, calls1)) = Inr (r, calls)"
    by (rule andthenE)
  show thesis
    using d lb [unfolded s] b1 [unfolded s] up [unfolded p] fw [unfolded q] nce 6 [unfolded s]
    by (rule that)
qed

lemma training_step_probe:
  assumes "andthen src (\<lambda>(img_1, y).
        andthen (forward self False img_1) (\<lambda>(Z, calls2).
        andthen (size_at Z 0) (\<lambda>b0.
        andthen (view (detach Z) [int b0, - 1]) (\<lambda>z_in.
        andthen (call_non_linear_evaluator self ge z_in) (\<lambda>mlp_preds.
        andthen (call_cross_entropy ext ge mlp_preds y) (\<lambda>mlp_loss.
        Inr (\<lparr>loss = add_scalars ge nce_loss mlp_loss,
              log_dict = [''train_nce_loss'' \<mapsto> nce_loss, ''train_mlp_loss'' \<mapsto> mlp_loss]\<rparr>,
             calls1 @ calls2))))))) = Inr (r, calls)"
  obtains img_2 y2 Z2 calls2 b0 z_in mlp_preds mlp_loss where
    "src = Inr (img_2, y2)"
    "forward self False img_2 = Inr (Z2, calls2)"
    "size_at Z2 0 = Inr b0"
    "view (detach Z2) [int b0, - 1] = Inr z_in"
    "call_non_linear_evaluator self ge z_in = Inr mlp_preds"
    "call_cross_entropy ext ge mlp_preds y2 = Inr mlp_loss"
    "r = \<lparr>loss = add_scalars ge nce_loss mlp_loss,
          log_dict = [''train_nce_loss'' \<mapsto> nce_loss, ''train_mlp_loss'' \<mapsto> mlp_loss]\<rparr>"
    "calls = calls1 @ calls2"
proof -
  from assms obtain p where src: "src = Inr p"
    and 1: "(case p of (img_1, y) \<Rightarrow>
        andthen (forward self False img_1) (\<lambda>(Z, calls2).
        andthen (size_at Z 0) (\<lambda>b0.
        andthen (view (detach Z) [int b0, - 1]) (\<lambda>z_in.
        andthen (call_non_linear_evaluator self ge z_in) (\<lambda>mlp_preds.
        andthen (call_cross_entropy ext ge mlp_preds y) (\<lambda>mlp_loss.
        Inr (\<lparr>loss = add_scalars ge nce_loss mlp_loss,
              log_dict = [''train_nce_loss'' \<mapsto> nce_loss, ''train_mlp_loss'' \<mapsto> mlp_loss]\<rparr>,
             calls1 @ calls2))))))) = Inr (r, calls)"
    by (rule andthenE)
  obtain img_2 y2 where p: "p = (img_2, y2)" by (cases p)
  from 1 [unfolded p prod.case]
  obtain q where fw: "forward self False img_2 = Inr q"
    and 2: "(case q of (Z, calls2) \<Rightarrow>
        andthen (size_at Z 0) (\<lambda>b0.
        andthen (view (detach Z) [int b0, - 1]) (\<lambda>z_in.
        andthen (call_non_linear_evaluator self ge z_in) (\<lambda>mlp_preds.
        andthen (call_cross_entropy ext ge mlp_preds y2) (\<lambda>mlp_loss.
        Inr (\<lparr>loss = add_scalars ge nce_loss mlp_loss,
              log_dict = [''train_nce_loss'' \<mapsto> nce_loss, ''train_mlp_loss'' \<mapsto> mlp_loss]\<rparr>,
             calls1 @ calls2)))))) = Inr (r, calls)"
    by (rule andthenE)
  obtain Z2 calls2 where q: "q = (Z2, calls2)" by (cases q)
  from 2 [unfolded q prod.case]
  obtain b0 where sz: "size_at Z2 0 = Inr b0"
    and 3: "andthen (view (detach Z2) [int b0, - 1]) (\<lambda>z_in.
        andthen (call_non_linear_evaluator self ge z_in) (\<lambda>mlp_preds.
        andthen (call_cross_entropy ext ge mlp_preds y2) (\<lambda>mlp_loss.
        Inr (\<lparr>loss = add_scalars ge nce_loss mlp_loss,
              log_dict = [''train_nce_loss'' \<mapsto> nce_loss, ''train_mlp_loss'' \<mapsto> mlp_loss]\<rparr>,
             calls1 @ calls2)))) = Inr (r, calls)"
    by (rule andthenE)
  from 3 obtain z_in where vw: "view (detach Z2) [int b0, - 1] = Inr z_in"
    and 4: "andthen (call_non_linear_evaluator self ge z_in) (\<lambda>mlp_preds.
        andthen (call_cross_entropy ext ge mlp_preds y2) (\<lambda>mlp_loss.
        Inr (\<lparr>loss = add_scalars ge nce_loss mlp_loss,
              log_dict = [''train_nce_loss'' \<mapsto> nce_loss, ''train_mlp_loss'' \<mapsto> mlp_loss]\<rparr>,
             calls1 @ calls2))) = Inr (r, calls)"
    by (rule andthenE)
  from 4 obtain mlp_preds where ev: "call_non_linear_evaluator self ge z_in = Inr mlp_preds"
    and 5: "andthen (call_cross_entropy ext ge mlp_preds y2) (\<lambda>mlp_loss.
        Inr (\<lparr>loss = add_scalars ge nce_loss mlp_loss,
              log_dict = [''train_nce_loss'' \<mapsto> nce_loss, ''train_mlp_loss'' \<mapsto> mlp_loss]\<rparr>,
             calls1 @ calls2)) = Inr (r, calls)"
    by (rule andthenE)
  from 5 obtain mlp_loss where ce: "call_cross_entropy ext ge mlp_preds y2 = Inr mlp_loss"
    and 6: "Inr (\<lparr>loss = add_scalars ge nce_loss mlp_loss,
              log_dict = [''train_nce_loss'' \<mapsto> nce_loss, ''train_mlp_loss'' \<mapsto> mlp_loss]\<rparr>,
             calls1 @ calls2) = (Inr (r, calls) :: error + ('a train_result \<times> 'a calls))"
    by (rule andthenE)
  from 6 have r: "r = \<lparr>loss = add_scalars ge nce_loss mlp_loss,
          log_dict = [''train_nce_loss'' \<mapsto> nce_loss, ''train_mlp_loss'' \<mapsto> mlp_loss]\<rparr>"
    and c: "calls = calls1 @ calls2"
    by (simp_all only: sum.inject prod.inject)
  show thesis
    using src [unfolded p] fw [unfolded q] sz vw ev ce r c by (rule that)
qed

lemma as_tensor_with_history:
  "as_tensor (with_history h out) = Inr t \<Longrightarrow> grad_fn t = h"
  by (cases out) (auto simp: as_tensor_def)

lemma first_item_with_history:
  assumes "getitem (with_history h out) 0 = Inr v" and "as_tensor v = Inr t"
  shows "grad_fn t = h"
proof -
  from assms(1) obtain x where "v = with_history h x"
    unfolding getitem_with_history by (auto elim!: andthenE)
  with assms(2) show ?thesis by (simp add: as_tensor_with_history)
qed

lemma forward_Inr:
  assumes "forward self ge img = Inr (Z, cs)"
  shows "\<exists>x. cs = [(ge, x)] \<and> grad_fn Z = track ge ''encoder'' [Parameters ''encoder'', grad_fn x]"
proof -
  from assms [unfolded forward_def]
  obtain t where "as_tensor img = Inr t"
    and 1: "(case shape t of
        [b, p, c, w, h] \<Rightarrow>
          andthen (view t [- 1, int c, int w, int h]) (\<lambda>img_1.
          andthen (call_encoder self ge img_1) (\<lambda>(Z, calls).
          andthen (if \<not> names_cpc_encoder (hp_encoder self) then getitem Z 0 else Inr Z) (\<lambda>Z.
          andthen (as_tensor Z) (\<lambda>Z.
          andthen (recover_z_shape Z b) (\<lambda>Z.
          Inr (Z, calls))))))
      | _ \<Rightarrow> Inl ValueError) = Inr (Z, cs)"
    by (rule andthenE)
  from 1 obtain b p c w h where "shape t = [b, p, c, w, h]"
    by (auto split: list.split_asm)
  with 1 have 2: "andthen (view t [- 1, int c, int w, int h]) (\<lambda>img_1.
          andthen (call_encoder self ge img_1) (\<lambda>(Z, calls).
          andthen (if \<not> names_cpc_encoder (hp_encoder self) then getitem Z 0 else Inr Z) (\<lambda>Z.
          andthen (as_tensor Z) (\<lambda>Z.
          andthen (recover_z_shape Z b) (\<lambda>Z.
          Inr (Z, calls)))))) = Inr (Z, cs)"
    by simp
  from 2 obtain x where "view t [- 1, int c, int w, int h] = Inr x"
    and 3: "andthen (call_encoder self ge x) (\<lambda>(Z, calls).
          andthen (if \<not> names_cpc_encoder (hp_encoder self) then getitem Z 0 else Inr Z) (\<lambda>Z.
          andthen (as_tensor Z) (\<lambda>Z.
          andthen (recover_z_shape Z b) (\<lambda>Z.
          Inr (Z, calls))))) = Inr (Z, cs)"
    by (rule andthenE)
  let ?H = "track ge ''encoder'' [Parameters ''encoder'', grad_fn x]"
  from 3 obtain q where ce: "call_encoder self ge x = Inr q"
    and 4: "(case q of (Z', calls) \<Rightarrow>
          andthen (if \<not> names_cpc_encoder (hp_encoder self) then getitem Z' 0 else Inr Z') (\<lambda>Z.
          andthen (as_tensor Z) (\<lambda>Z.
          andthen (recover_z_shape Z b) (\<lambda>Z.
          Inr (Z, calls))))) = Inr (Z, cs)"
    by (rule andthenE)
  from ce obtain out where q: "q = (with_history ?H out, [(ge, x)])"
    unfolding call_encoder_def by (auto elim!: andthenE)
  from 4 [unfolded q prod.case]
  obtain v where fi: "(if \<not> names_cpc_encoder (hp_encoder self) then getitem (with_history ?H out) 0
                       else Inr (with_history ?H out)) = Inr v"
    and 5: "andthen (as_tensor v) (\<lambda>Z'.
          andthen (recover_z_shape Z' b) (\<lambda>Z'.
          Inr (Z', [(ge, x)]))) = Inr (Z, cs)"
    by (rule andthenE)
  from 5 obtain Z0 where at: "as_tensor v = Inr Z0"
    and 6: "andthen (recover_z_shape Z0 b) (\<lambda>Z'. Inr (Z', [(ge, x)])) = Inr (Z, cs)"
    by (rule andthenE)
  from 6 obtain G where rz: "recover_z_shape Z0 b = Inr G"
    and 7: "Inr (G, [(ge, x)]) = (Inr (Z, cs) :: error + ('a tensor \<times> 'a calls))"
    by (rule andthenE)
  have g0: "grad_fn Z0 = ?H"
  proof (cases "names_cpc_encoder (hp_encoder self)")
    case True
    with fi have "v = with_history ?H out" by simp
    with at show ?thesis by (simp add: as_tensor_with_history)
  next
    case False
    with fi have "getitem (with_history ?H out) 0 = Inr v" by simp
    then show ?thesis using at by (rule first_item_with_history)
  qed
  have "grad_fn G = ?H" using grad_fn_recover_z_shape [OF rz] g0 by simp
  moreover from 7 have "G = Z" "cs = [(ge, x)]" by simp_all
  ultimately show ?thesis by blast
qed

lemma shape_forward:
  assumes "forward self ge img = Inr (Z, cs)"
  shows "\<exists>b c n. shape Z = [b, c, n, n]"
  using assms unfolding forward_def call_encoder_def andthen_def
  by (auto split: sum.split_asm list.split_asm prod.split_asm if_split_asm
           dest!: shape_recover_z_shape)

lemma sum_list_map2_zero:
  "\<forall>g \<in> set gs. g = (0::real) \<Longrightarrow> sum_list (map2 (*) xs gs) = 0"
proof (induction gs arbitrary: xs)
  case Nil
  then show ?case by simp
next
  case (Cons g gs)
  then show ?case by (cases xs) simp_all
qed

lemma grad_track_zero:
  assumes "\<forall>h \<in> set hs. grad d p h = 0"
  shows "grad d p (track ge f hs) = 0"
proof -
  have z: "\<forall>g \<in> set (map (grad d p) hs). g = 0" using assms by simp
  have "sum_list (map (grad d p) hs) = 0" using assms by (induction hs) simp_all
  moreover have "sum_list (map2 (*) (d f hs) (map (grad d p) hs)) = 0"
    using z by (rule sum_list_map2_zero)
  ultimately show ?thesis by (simp add: track_def)
qed

lemma grad_add_scalars:
  "grad d p (hist (add_scalars ge a b)) = grad d p (track ge ''add'' [hist a, hist b])"
  by (simp add: add_scalars_def)

lemma grad_track_add:
  assumes "grad d p b = 0" and "grad d p a = grad d p (track ge f as)"
  shows "grad d p (track ge ''add'' [a, b]) = grad d p a"
proof (cases ge)
  case True
  show ?thesis
  proof (cases "requires_grad a \<or> requires_grad b")
    case True
    then show ?thesis using \<open>ge\<close> assms(1) by (auto simp: track_def)
  next
    case False
    then show ?thesis by (cases a) (simp_all add: track_def)
  qed
next
  case False
  then show ?thesis using assms(2) by (simp add: track_def)
qed

lemma call_info_nce_hist:
  assumes "call_info_nce self ge Z = Inr nce_loss"
  shows "hist nce_loss = track ge ''info_nce'' [Parameters ''info_nce'', grad_fn Z]"
  using assms unfolding call_info_nce_def
  by (auto split: option.split_asm elim!: andthenE)

lemma call_non_linear_evaluator_grad_fn:
  assumes "call_non_linear_evaluator self ge z_in = Inr mlp_preds"
  shows "grad_fn mlp_preds =
    track ge ''non_linear_evaluator'' [Parameters ''non_linear_evaluator'', grad_fn z_in]"
  using assms unfolding call_non_linear_evaluator_def
  by (auto split: option.split_asm elim!: andthenE)

lemma call_cross_entropy_hist:
  assumes "call_cross_entropy ext ge mlp_preds y = Inr mlp_loss"
  shows "hist mlp_loss = track ge ''cross_entropy'' [grad_fn mlp_preds]"
  using assms unfolding call_cross_entropy_def by (auto elim!: andthenE)

lemma probe_loss_no_encoder_gradient:
  assumes "view (detach Z2) sizes = Inr z_in"
    and "call_non_linear_evaluator self ge z_in = Inr mlp_preds"
    and "call_cross_entropy ext ge mlp_preds y = Inr mlp_loss"
  shows "grad d ''encoder'' (hist mlp_loss) = 0"
proof -
  have "grad_fn z_in = NoHistory"
    using grad_fn_view [OF assms(1)] by (simp add: detach_def)
  then have "grad d ''encoder'' (grad_fn mlp_preds) = 0"
    unfolding call_non_linear_evaluator_grad_fn [OF assms(2)]
    by (intro grad_track_zero) simp
  then show ?thesis
    unfolding call_cross_entropy_hist [OF assms(3)]
    by (intro grad_track_zero) simp
qed

lemma forward_online_evaluator_update [simp]:
  "forward (self\<lparr>online_evaluator := b\<rparr>) ge img = forward self ge img"
  by (simp add: forward_def call_encoder_def cong: list.case_cong)

lemma call_info_nce_online_evaluator_update [simp]:
  "call_info_nce (self\<lparr>online_evaluator := b\<rparr>) ge Z = call_info_nce self ge Z"
  by (simp add: call_info_nce_def)

lemma training_step_without_probe:
  assumes "hp_dataset self = Some d"
    and "(if d = ''stl10'' then getitem batch 1 else Inr batch) = Inr labeled_batch"
    and "(if d = ''stl10'' then getitem batch 0 else Inr batch) = Inr batch1"
    and "unpack2 batch1 = Inr (img_1, y)"
    and "forward self ge img_1 = Inr (Z, calls1)"
    and "call_info_nce self ge Z = Inr nce_loss"
    and "\<not> online_evaluator self"
  shows "training_step ext self ge batch =
     Inr (\<lparr>loss = nce_loss, log_dict = [''train_nce_loss'' \<mapsto> nce_loss]\<rparr>, calls1)"
  unfolding training_step_def Let_def assms(1) option.case andthen_Inr assms(2,3,4) prod.case
    assms(5,6)
  using assms(7) by simp

text \<open>
  C3. Gradient isolation of the online probe. When a training step with the probe
  enabled returns, the gradient of the probe's cross-entropy loss with respect to the
  encoder parameters is zero, the gradient of the returned loss with respect to the
  encoder parameters is that of the contrastive loss alone, and the same step with the
  probe disabled returns a loss with the same encoder gradient: whatever the local
  derivatives \<open>d\<close> of the operations are.
\<close>

theorem probe_gradient_isolation:
  assumes "training_step ext self ge batch = Inr (r, calls)" and "online_evaluator self"
  shows "\<exists>nce_loss mlp_loss r' calls'.
      log_dict r ''train_nce_loss'' = Some nce_loss \<and>
      log_dict r ''train_mlp_loss'' = Some mlp_loss \<and>
      loss r = add_scalars ge nce_loss mlp_loss \<and>
      (\<forall>d. grad d ''encoder'' (hist mlp_loss) = 0) \<and>
      (\<forall>d. grad d ''encoder'' (hist (loss r)) = grad d ''encoder'' (hist nce_loss)) \<and>
      training_step ext (self\<lparr>online_evaluator := False\<rparr>) ge batch = Inr (r', calls') \<and>
      loss r' = nce_loss \<and>
      (\<forall>d. grad d ''encoder'' (hist (loss r')) = grad d ''encoder'' (hist (loss r)))"
proof -
  from assms(1) obtain d labeled_batch batch1 img_1 y Z calls1 nce_loss where
    c: "hp_dataset self = Some d"
      "(if d = ''stl10'' then getitem batch 1 else Inr batch) = Inr labeled_batch"
      "(if d = ''stl10'' then getitem batch 0 else Inr batch) = Inr batch1"
      "unpack2 batch1 = Inr (img_1, y)"
      "forward self ge img_1 = Inr (Z, calls1)"
      "call_info_nce self ge Z = Inr nce_loss"
    and rest: "(if online_evaluator self
      then
        andthen (if d = ''stl10'' then unpack2 labeled_batch else Inr (img_1, y)) (\<lambda>(img_1, y).
        andthen (forward self False img_1) (\<lambda>(Z, calls2).
        andthen (size_at Z 0) (\<lambda>b0.
        andthen (view (detach Z) [int b0, - 1]) (\<lambda>z_in.
        andthen (call_non_linear_evaluator self ge z_in) (\<lambda>mlp_preds.
        andthen (call_cross_entropy ext ge mlp_preds y) (\<lambda>mlp_loss.
        Inr (\<lparr>loss = add_scalars ge nce_loss mlp_loss,
              log_dict = [''train_nce_loss'' \<mapsto> nce_loss, ''train_mlp_loss'' \<mapsto> mlp_loss]\<rparr>,
             calls1 @ calls2)))))))
      else Inr (\<lparr>loss = nce_loss, log_dict = [''train_nce_loss'' \<mapsto> nce_loss]\<rparr>, calls1))
     = Inr (r, calls)"
    by (rule training_step_contrastive)
  from rest [unfolded if_P [OF assms(2)]]
  obtain img_2 y2 Z2 calls2 b0 z_in mlp_preds mlp_loss where
    p: "view (detach Z2) [int b0, - 1] = Inr z_in"
      "call_non_linear_evaluator self ge z_in = Inr mlp_preds"
      "call_cross_entropy ext ge mlp_preds y2 = Inr mlp_loss"
    and r: "r = \<lparr>loss = add_scalars ge nce_loss mlp_loss,
          log_dict = [''train_nce_loss'' \<mapsto> nce_loss, ''train_mlp_loss'' \<mapsto> mlp_loss]\<rparr>"
    by (rule training_step_probe)
  let ?r' = "\<lparr>loss = nce_loss, log_dict = [''train_nce_loss'' \<mapsto> nce_loss]\<rparr>"
  have l1: "log_dict r ''train_nce_loss'' = Some nce_loss" by (simp add: r)
  have l2: "log_dict r ''train_mlp_loss'' = Some mlp_loss" by (simp add: r)
  have l3: "loss r = add_scalars ge nce_loss mlp_loss" by (simp add: r)
  have g1: "grad d ''encoder'' (hist mlp_loss) = 0" for d
    using p by (rule probe_loss_no_encoder_gradient)
  have g2: "grad d ''encoder'' (hist (loss r)) = grad d ''encoder'' (hist nce_loss)" for d
    unfolding l3 grad_add_scalars
    using g1 [of d] call_info_nce_hist [OF c(6)] by (intro grad_track_add) simp_all
  have off: "training_step ext (self\<lparr>online_evaluator := False\<rparr>) ge batch = Inr (?r', calls1)"
    using c by (intro training_step_without_probe) simp_all
  have l4: "loss ?r' = nce_loss" by simp
  have g3: "grad d ''encoder'' (hist (loss ?r')) = grad d ''encoder'' (hist (loss r))" for d
    using g2 [of d] by simp
  show ?thesis
    using l1 l2 l3 g1 g2 off l4 g3 by blast
qed

text \<open>
  C5. Training-step combination. When a training step returns, it logs the contrastive
  loss of the forward pass under \<open>'train_nce_loss'\<close>. With the probe enabled, the
  returned loss is that loss plus the probe's cross-entropy loss, which is logged
  under \<open>'train_mlp_loss'\<close> and is computed from a second forward pass made with
  gradients disabled (the second encoder call of the step, its result without
  history). With the probe disabled, the returned loss is the contrastive loss alone,
  nothing else is logged, and the encoder is called once.
\<close>

theorem training_step_combination:
  assumes "training_step ext self ge batch = Inr (r, calls)"
  shows "\<exists>img_1 Z x1 nce_loss.
      forward self ge img_1 = Inr (Z, [(ge, x1)]) \<and>
      call_info_nce self ge Z = Inr nce_loss \<and>
      log_dict r ''train_nce_loss'' = Some nce_loss \<and>
      (if online_evaluator self
       then \<exists>img_2 y2 Z2 x2 b0 z_in mlp_preds mlp_loss.
              forward self False img_2 = Inr (Z2, [(False, x2)]) \<and>
              grad_fn Z2 = NoHistory \<and>
              size_at Z2 0 = Inr b0 \<and>
              view (detach Z2) [int b0, - 1] = Inr z_in \<and>
              call_non_linear_evaluator self ge z_in = Inr mlp_preds \<and>
              call_cross_entropy ext ge mlp_preds y2 = Inr mlp_loss \<and>
              log_dict r ''train_mlp_loss'' = Some mlp_loss \<and>
              loss r = add_scalars ge nce_loss mlp_loss \<and>
              val (loss r) = val nce_loss + val mlp_loss \<and>
              calls = [(ge, x1), (False, x2)]
       else loss r = nce_loss \<and> log_dict r ''train_mlp_loss'' = None \<and> calls = [(ge, x1)])"
proof -
  from assms obtain d labeled_batch batch1 img_1 y Z calls1 nce_loss where
    c: "forward self ge img_1 = Inr (Z, calls1)"
      "call_info_nce self ge Z = Inr nce_loss"
    and rest: "(if online_evaluator self
      then
        andthen (if d = ''stl10'' then unpack2 labeled_batch else Inr (img_1, y)) (\<lambda>(img_1, y).
        andthen (forward self False img_1) (\<lambda>(Z, calls2).
        andthen (size_at Z 0) (\<lambda>b0.
        andthen (view (detach Z) [int b0, - 1]) (\<lambda>z_in.
        andthen (call_non_linear_evaluator self ge z_in) (\<lambda>mlp_preds.
        andthen (call_cross_entropy ext ge mlp_preds y) (\<lambda>mlp_loss.
        Inr (\<lparr>loss = add_scalars ge nce_loss mlp_loss,
              log_dict = [''train_nce_loss'' \<mapsto> nce_loss, ''train_mlp_loss'' \<mapsto> mlp_loss]\<rparr>,
             calls1 @ calls2)))))))
      else Inr (\<lparr>loss = nce_loss, log_dict = [''train_nce_loss'' \<mapsto> nce_loss]\<rparr>, calls1))
     = Inr (r, calls)"
    by (rule training_step_contrastive)
  from forward_Inr [OF c(1)] obtain x1 where x1: "calls1 = [(ge, x1)]" by blast
  show ?thesis
  proof (cases "online_evaluator self")
    case True
    from rest [unfolded if_P [OF True]]
    obtain img_2 y2 Z2 calls2 b0 z_in mlp_preds mlp_loss where
      p: "forward self False img_2 = Inr (Z2, calls2)"
        "size_at Z2 0 = Inr b0"
        "view (detach Z2) [int b0, - 1] = Inr z_in"
        "call_non_linear_evaluator self ge z_in = Inr mlp_preds"
        "call_cross_entropy ext ge mlp_preds y2 = Inr mlp_loss"
      and r: "r = \<lparr>loss = add_scalars ge nce_loss mlp_loss,
          log_dict = [''train_nce_loss'' \<mapsto> nce_loss, ''train_mlp_loss'' \<mapsto> mlp_loss]\<rparr>"
      and cs: "calls = calls1 @ calls2"
      by (rule training_step_probe)
    from forward_Inr [OF p(1)] obtain x2 where x2: "calls2 = [(False, x2)]"
      and h2: "grad_fn Z2 = NoHistory" by (auto simp: track_def)
    have l1: "log_dict r ''train_nce_loss'' = Some nce_loss" by (simp add: r)
    have l2: "log_dict r ''train_mlp_loss'' = Some mlp_loss" by (simp add: r)
    have l3: "loss r = add_scalars ge nce_loss mlp_loss" by (simp add: r)
    have l4: "val (loss r) = val nce_loss + val mlp_loss" by (simp add: r add_scalars_def)
    have l5: "calls = [(ge, x1), (False, x2)]" by (simp add: cs x1 x2)
    have "\<exists>img_2 y2 Z2 x2 b0 z_in mlp_preds mlp_loss.
              forward self False img_2 = Inr (Z2, [(False, x2)]) \<and>
              grad_fn Z2 = NoHistory \<and>
              size_at Z2 0 = Inr b0 \<and>
              view (detach Z2) [int b0, - 1] = Inr z_in \<and>
              call_non_linear_evaluator self ge z_in = Inr mlp_preds \<and>
              call_cross_entropy ext ge mlp_preds y2 = Inr mlp_loss \<and>
              log_dict r ''train_mlp_loss'' = Some mlp_loss \<and>
              loss r = add_scalars ge nce_loss mlp_loss \<and>
              val (loss r) = val nce_loss + val mlp_loss \<and>
              calls = [(ge, x1), (False, x2)]"
      using p(1) [unfolded x2] h2 p(2-5) l2 l3 l4 l5 by blast
    then show ?thesis
      using c(1) [unfolded x1] c(2) l1 True by (simp only: if_True) blast
  next
    case False
    from rest [unfolded if_not_P [OF False]]
    have r: "r = \<lparr>loss = nce_loss, log_dict = [''train_nce_loss'' \<mapsto> nce_loss]\<rparr>"
      and cs: "calls = calls1" by simp_all
    have l1: "log_dict r ''train_nce_loss'' = Some nce_loss" by (simp add: r)
    have l2: "loss r = nce_loss \<and> log_dict r ''train_mlp_loss'' = None \<and> calls = [(ge, x1)]"
      by (simp add: r cs x1)
    show ?thesis
      using c(1) [unfolded x1] c(2) l1 l2 False by (simp only: if_False) blast
  qed
qed

lemma training_step_with_probe:
  assumes "hp_dataset self = Some d"
    and "(if d = ''stl10'' then getitem batch 1 else Inr batch) = Inr labeled_batch"
    and "(if d = ''stl10'' then getitem batch 0 else Inr batch) = Inr batch1"
    and "unpack2 batch1 = Inr (img_1, y)"
    and "forward self ge img_1 = Inr (Z, calls1)"
    and "call_info_nce self ge Z = Inr nce_loss"
    and "online_evaluator self"
    and "(if d = ''stl10'' then unpack2 labeled_batch else Inr (img_1, y)) = Inr (img_2, y2)"
    and "forward self False img_2 = Inr (Z2, calls2)"
    and "size_at Z2 0 = Inr b0"
    and "view (detach Z2) [int b0, - 1] = Inr z_in"
    and "call_non_linear_evaluator self ge z_in = Inr mlp_preds"
    and "call_cross_entropy ext ge mlp_preds y2 = Inr mlp_loss"
  shows "training_step ext self ge batch =
     Inr (\<lparr>loss = add_scalars ge nce_loss mlp_loss,
           log_dict = [''train_nce_loss'' \<mapsto> nce_loss, ''train_mlp_loss'' \<mapsto> mlp_loss]\<rparr>,
          calls1 @ calls2)"
  unfolding training_step_def Let_def assms(1) option.case andthen_Inr assms(2,3,4) prod.case
    assms(5,6) if_P [OF assms(7)] assms(8,9,10,11,12,13)
  by (rule refl)

lemma validation_step_without_probe:
  assumes "hp_dataset self = Some d"
    and "(if d = ''stl10'' then getitem batch 1 else Inr batch) = Inr labeled_batch"
    and "(if d = ''stl10'' then getitem batch 0 else Inr batch) = Inr batch1"
    and "unpack2 batch1 = Inr (img_1, y)"
    and "forward self ge img_1 = Inr (Z, calls1)"
    and "call_info_nce self ge Z = Inr nce_loss"
    and "\<not> online_evaluator self"
  shows "validation_step ext self ge batch = Inr ([''val_nce'' \<mapsto> nce_loss], calls1)"
  unfolding validation_step_def Let_def assms(1) option.case andthen_Inr assms(2,3,4) prod.case
    assms(5,6) if_not_P [OF assms(7)]
  by (rule refl)

lemma validation_step_with_probe:
  assumes "hp_dataset self = Some d"
    and "(if d = ''stl10'' then getitem batch 1 else Inr batch) = Inr labeled_batch"
    and "(if d = ''stl10'' then getitem batch 0 else Inr batch) = Inr batch1"
    and "unpack2 batch1 = Inr (img_1, y)"
    and "forward self ge img_1 = Inr (Z, calls1)"
    and "call_info_nce self ge Z = Inr nce_loss"
    and "online_evaluator self"
    and "(if d = ''stl10''
          then andthen (unpack2 labeled_batch) (\<lambda>(img_1, y).
               andthen (forward self ge img_1) (\<lambda>(Z, calls2). Inr (y, Z, calls2)))
          else Inr (y, Z, [])) = Inr (y2, Z2, calls2)"
    and "size_at Z2 0 = Inr b0"
    and "view Z2 [int b0, - 1] = Inr z_in"
    and "call_non_linear_evaluator self ge z_in = Inr mlp_preds"
    and "call_cross_entropy ext ge mlp_preds y2 = Inr mlp_loss"
    and "call_accuracy ext mlp_preds y2 = Inr acc"
  shows "validation_step ext self ge batch =
     Inr ([''val_nce'' \<mapsto> nce_loss, ''mlp_acc'' \<mapsto> acc, ''mlp_loss'' \<mapsto> mlp_loss],
          calls1 @ calls2)"
  unfolding validation_step_def Let_def assms(1) option.case andthen_Inr assms(2,3,4) prod.case
    assms(5,6) if_P [OF assms(7)] assms(8,9,10,11,12,13)
  by (rule refl)

lemma getitem_pair [simp]:
  "getitem (Tuple [a, b]) 0 = Inr a" "getitem (Tuple [a, b]) 1 = Inr b"
  by (simp_all add: getitem_def)

lemma getitem_pair_Suc [simp]: "getitem (Tuple [a, b]) (Suc 0) = Inr b"
  by (simp add: getitem_def)

lemma unpack2_pair [simp]: "unpack2 (Tuple [a, b]) = Inr (a, b)"
  by (simp add: unpack2_def)

lemma forward_of_tuple [simp]: "forward self ge (Tuple xs) = Inl AttributeError"
  by (simp add: forward_def as_tensor_def)

lemma forward_not_five_dims:
  "length (shape t) \<noteq> 5 \<Longrightarrow> forward self ge (Tensor t) = Inl ValueError"
  by (auto simp: forward_def as_tensor_def split: list.splits)

lemma unpack2_then_forward_five_dims:
  assumes "length (shape t) = 5"
  shows "andthen (unpack2 (Tensor t)) (\<lambda>(img_1, y). andthen (forward self ge img_1) (f img_1 y)) =
    Inl ValueError"
proof -
  from assms obtain b ds where s: "shape t = b # ds" and l: "length ds = 4"
    by (cases "shape t") auto
  show ?thesis
  proof (cases "b = 2")
    case True
    have "select0 t 0 = Inr (t\<lparr>shape := ds, data := take (prod_list ds) (drop (0 * prod_list ds) (data t))\<rparr>)"
      by (simp add: select0_def s True)
    moreover have "select0 t 1 = Inr (t\<lparr>shape := ds, data := take (prod_list ds) (drop (1 * prod_list ds) (data t))\<rparr>)"
      by (simp add: select0_def s True)
    ultimately show ?thesis
      using l by (simp add: unpack2_def s True forward_not_five_dims)
  next
    case False
    then show ?thesis by (simp add: unpack2_def s)
  qed
qed

lemma forward_hp_dataset_update [simp]:
  "forward (self\<lparr>hp_dataset := x\<rparr>) ge img = forward self ge img"
  by (simp add: forward_def call_encoder_def cong: list.case_cong)

lemma call_info_nce_hp_dataset_update [simp]:
  "call_info_nce (self\<lparr>hp_dataset := x\<rparr>) ge Z = call_info_nce self ge Z"
  by (simp add: call_info_nce_def)

lemma call_non_linear_evaluator_hp_dataset_update [simp]:
  "call_non_linear_evaluator (self\<lparr>hp_dataset := x\<rparr>) ge z = call_non_linear_evaluator self ge z"
  by (simp add: call_non_linear_evaluator_def)

lemma training_step_other_flag:
  assumes "hp_dataset self = Some d" and "d \<noteq> ''stl10''" and "d' \<noteq> ''stl10''"
  shows "training_step ext (self\<lparr>hp_dataset := Some d'\<rparr>) ge batch = training_step ext self ge batch"
  using assms by (simp add: training_step_def Let_def cong: if_cong)

lemma validation_step_other_flag:
  assumes "hp_dataset self = Some d" and "d \<noteq> ''stl10''" and "d' \<noteq> ''stl10''"
  shows "validation_step ext (self\<lparr>hp_dataset := Some d'\<rparr>) ge batch = validation_step ext self ge batch"
  using assms by (simp add: validation_step_def Let_def cong: if_cong)

lemma training_step_dual_batch_single_flag:
  assumes "hp_dataset self = Some d" and "d \<noteq> ''stl10''"
  shows "training_step ext self ge (Tuple [Tuple us, Tuple ls]) = Inl AttributeError"
  using assms by (simp add: training_step_def)

lemma validation_step_dual_batch_single_flag:
  assumes "hp_dataset self = Some d" and "d \<noteq> ''stl10''"
  shows "validation_step ext self ge (Tuple [Tuple us, Tuple ls]) = Inl AttributeError"
  using assms by (simp add: validation_step_def)

lemma training_step_single_batch_dual_flag:
  assumes "hp_dataset self = Some ''stl10''" and "length (shape t) = 5"
  shows "training_step ext self ge (Tuple [Tensor t, yy]) = Inl ValueError"
  using assms(1) unpack2_then_forward_five_dims [OF assms(2)]
  by (simp add: training_step_def)

lemma validation_step_single_batch_dual_flag:
  assumes "hp_dataset self = Some ''stl10''" and "length (shape t) = 5"
  shows "validation_step ext self ge (Tuple [Tensor t, yy]) = Inl ValueError"
  using assms(1) unpack2_then_forward_five_dims [OF assms(2)]
  by (simp add: validation_step_def)

lemma training_step_dual_without_probe:
  assumes "hp_dataset self = Some ''stl10''" and "\<not> online_evaluator self" and "d' \<noteq> ''stl10''"
  shows "training_step ext self ge (Tuple [U, L]) =
     training_step ext (self\<lparr>hp_dataset := Some d'\<rparr>) ge U"
  using assms by (simp add: training_step_def Let_def cong: if_cong)

lemma validation_step_dual_without_probe:
  assumes "hp_dataset self = Some ''stl10''" and "\<not> online_evaluator self" and "d' \<noteq> ''stl10''"
  shows "validation_step ext self ge (Tuple [U, L]) =
     validation_step ext (self\<lparr>hp_dataset := Some d'\<rparr>) ge U"
  using assms by (simp add: validation_step_def Let_def cong: if_cong)

text \<open>
  C6. Batch-shape branching on the dataset flag only, in training and in validation,
  with the probe on or off. With the flag \<open>'stl10'\<close>, a batch
  \<open>[[img_u, y_u], [img_l, y_l]]\<close> gives the contrastive loss of \<open>img_u\<close> (\<open>batch[0]\<close>)
  and, when the probe is on, the probe loss of \<open>img_l, y_l\<close> (\<open>batch[1]\<close>); when the
  probe is off the step is the single-stream step on \<open>batch[0]\<close>, whatever \<open>batch[1]\<close>
  is. With any other flag a batch \<open>[img, y]\<close> feeds both paths, and the flag's value
  does not matter otherwise. The batch is never inspected to choose: a pair of pairs
  under another flag is an AttributeError, and a single pair with a five-dimensional
  patch batch under \<open>'stl10'\<close> is a ValueError.
\<close>

theorem steps_branch_on_dataset_flag:
  assumes hp: "hp_dataset self = Some d"
  shows "(d = ''stl10'' \<longrightarrow>
       (forward self ge img_u = Inr (Zu, cu) \<and> call_info_nce self ge Zu = Inr nce_loss \<longrightarrow>
          (online_evaluator self \<and>
           forward self False img_l = Inr (Zl, cl) \<and>
           size_at Zl 0 = Inr b0 \<and>
           view (detach Zl) [int b0, - 1] = Inr z_in \<and>
           call_non_linear_evaluator self ge z_in = Inr mlp_preds \<and>
           call_cross_entropy ext ge mlp_preds y_l = Inr mlp_loss \<longrightarrow>
             training_step ext self ge (Tuple [Tuple [img_u, y_u], Tuple [img_l, y_l]]) =
               Inr (\<lparr>loss = add_scalars ge nce_loss mlp_loss,
                     log_dict = [''train_nce_loss'' \<mapsto> nce_loss, ''train_mlp_loss'' \<mapsto> mlp_loss]\<rparr>,
                    cu @ cl)) \<and>
          (online_evaluator self \<and>
           forward self ge img_l = Inr (Zv, cv) \<and>
           size_at Zv 0 = Inr bv \<and>
           view Zv [int bv, - 1] = Inr zv \<and>
           call_non_linear_evaluator self ge zv = Inr pv \<and>
           call_cross_entropy ext ge pv y_l = Inr lv \<and>
           call_accuracy ext pv y_l = Inr av \<longrightarrow>
             validation_step ext self ge (Tuple [Tuple [img_u, y_u], Tuple [img_l, y_l]]) =
               Inr ([''val_nce'' \<mapsto> nce_loss, ''mlp_acc'' \<mapsto> av, ''mlp_loss'' \<mapsto> lv], cu @ cv)) \<and>
          (\<not> online_evaluator self \<longrightarrow>
             (\<forall>L. training_step ext self ge (Tuple [Tuple [img_u, y_u], L]) =
                    Inr (\<lparr>loss = nce_loss, log_dict = [''train_nce_loss'' \<mapsto> nce_loss]\<rparr>, cu) \<and>
                  validation_step ext self ge (Tuple [Tuple [img_u, y_u], L]) =
                    Inr ([''val_nce'' \<mapsto> nce_loss], cu)))) \<and>
       (\<not> online_evaluator self \<longrightarrow>
          (\<forall>U L d'. d' \<noteq> ''stl10'' \<longrightarrow>
             training_step ext self ge (Tuple [U, L]) =
               training_step ext (self\<lparr>hp_dataset := Some d'\<rparr>) ge U \<and>
             validation_step ext self ge (Tuple [U, L]) =
               validation_step ext (self\<lparr>hp_dataset := Some d'\<rparr>) ge U)) \<and>
       (\<forall>t yy. length (shape t) = 5 \<longrightarrow>
          training_step ext self ge (Tuple [Tensor t, yy]) = Inl ValueError \<and>
          validation_step ext self ge (Tuple [Tensor t, yy]) = Inl ValueError)) \<and>
     (d \<noteq> ''stl10'' \<longrightarrow>
       (forward self ge img_u = Inr (Zu, cu) \<and> call_info_nce self ge Zu = Inr nce_loss \<longrightarrow>
          (online_evaluator self \<and>
           forward self False img_u = Inr (Zl, cl) \<and>
           size_at Zl 0 = Inr b0 \<and>
           view (detach Zl) [int b0, - 1] = Inr z_in \<and>
           call_non_linear_evaluator self ge z_in = Inr mlp_preds \<and>
           call_cross_entropy ext ge mlp_preds y_u = Inr mlp_loss \<longrightarrow>
             training_step ext self ge (Tuple [img_u, y_u]) =
               Inr (\<lparr>loss = add_scalars ge nce_loss mlp_loss,
                     log_dict = [''train_nce_loss'' \<mapsto> nce_loss, ''train_mlp_loss'' \<mapsto> mlp_loss]\<rparr>,
                    cu @ cl)) \<and>
          (online_evaluator self \<and>
           size_at Zu 0 = Inr bv \<and>
           view Zu [int bv, - 1] = Inr zv \<and>
           call_non_linear_evaluator self ge zv = Inr pv \<and>
           call_cross_entropy ext ge pv y_u = Inr lv \<and>
           call_accuracy ext pv y_u = Inr av \<longrightarrow>
             validation_step ext self ge (Tuple [img_u, y_u]) =
               Inr ([''val_nce'' \<mapsto> nce_loss, ''mlp_acc'' \<mapsto> av, ''mlp_loss'' \<mapsto> lv], cu)) \<and>
          (\<not> online_evaluator self \<longrightarrow>
             training_step ext self ge (Tuple [img_u, y_u]) =
               Inr (\<lparr>loss = nce_loss, log_dict = [''train_nce_loss'' \<mapsto> nce_loss]\<rparr>, cu) \<and>
             validation_step ext self ge (Tuple [img_u, y_u]) =
               Inr ([''val_nce'' \<mapsto> nce_loss], cu))) \<and>
       (\<forall>us ls. training_step ext self ge (Tuple [Tuple us, Tuple ls]) = Inl AttributeError \<and>
          validation_step ext self ge (Tuple [Tuple us, Tuple ls]) = Inl AttributeError) \<and>
       (\<forall>d' batch. d' \<noteq> ''stl10'' \<longrightarrow>
          training_step ext (self\<lparr>hp_dataset := Some d'\<rparr>) ge batch = training_step ext self ge batch \<and>
          validation_step ext (self\<lparr>hp_dataset := Some d'\<rparr>) ge batch =
            validation_step ext self ge batch))"
proof (intro conjI impI allI; (elim conjE)?)
  assume s: "d = ''stl10''" and fu: "forward self ge img_u = Inr (Zu, cu)"
    and nu: "call_info_nce self ge Zu = Inr nce_loss" and on: "online_evaluator self"
    and tl: "forward self False img_l = Inr (Zl, cl)" "size_at Zl 0 = Inr b0"
      "view (detach Zl) [int b0, - 1] = Inr z_in"
      "call_non_linear_evaluator self ge z_in = Inr mlp_preds"
      "call_cross_entropy ext ge mlp_preds y_l = Inr mlp_loss"
  show "training_step ext self ge (Tuple [Tuple [img_u, y_u], Tuple [img_l, y_l]]) =
         Inr (\<lparr>loss = add_scalars ge nce_loss mlp_loss,
               log_dict = [''train_nce_loss'' \<mapsto> nce_loss, ''train_mlp_loss'' \<mapsto> mlp_loss]\<rparr>,
              cu @ cl)"
    by (rule training_step_with_probe [OF hp _ _ _ fu nu on _ tl,
          where labeled_batch = "Tuple [img_l, y_l]" and ?batch1.0 = "Tuple [img_u, y_u]"
            and y = y_u])
       (simp_all add: s)
next
  assume s: "d = ''stl10''" and fu: "forward self ge img_u = Inr (Zu, cu)"
    and nu: "call_info_nce self ge Zu = Inr nce_loss" and on: "online_evaluator self"
    and vl: "forward self ge img_l = Inr (Zv, cv)" "size_at Zv 0 = Inr bv"
      "view Zv [int bv, - 1] = Inr zv" "call_non_linear_evaluator self ge zv = Inr pv"
      "call_cross_entropy ext ge pv y_l = Inr lv" "call_accuracy ext pv y_l = Inr av"
  show "validation_step ext self ge (Tuple [Tuple [img_u, y_u], Tuple [img_l, y_l]]) =
         Inr ([''val_nce'' \<mapsto> nce_loss, ''mlp_acc'' \<mapsto> av, ''mlp_loss'' \<mapsto> lv], cu @ cv)"
    by (rule validation_step_with_probe [OF hp _ _ _ fu nu on _ vl(2-6),
          where labeled_batch = "Tuple [img_l, y_l]" and ?batch1.0 = "Tuple [img_u, y_u]"
            and y = y_u])
       (simp_all add: s vl(1))
next
  fix L :: "'a pyobj"
  assume s: "d = ''stl10''" and fu: "forward self ge img_u = Inr (Zu, cu)"
    and nu: "call_info_nce self ge Zu = Inr nce_loss" and off: "\<not> online_evaluator self"
  show "training_step ext self ge (Tuple [Tuple [img_u, y_u], L]) =
      Inr (\<lparr>loss = nce_loss, log_dict = [''train_nce_loss'' \<mapsto> nce_loss]\<rparr>, cu)"
    by (rule training_step_without_probe [OF hp _ _ _ fu nu off,
          where labeled_batch = L and ?batch1.0 = "Tuple [img_u, y_u]" and y = y_u])
       (simp_all add: s)
  show "validation_step ext self ge (Tuple [Tuple [img_u, y_u], L]) =
      Inr ([''val_nce'' \<mapsto> nce_loss], cu)"
    by (rule validation_step_without_probe [OF hp _ _ _ fu nu off,
          where labeled_batch = L and ?batch1.0 = "Tuple [img_u, y_u]" and y = y_u])
       (simp_all add: s)
next
  fix U L :: "'a pyobj" and d'
  assume s: "d = ''stl10''" and off: "\<not> online_evaluator self" and s': "d' \<noteq> ''stl10''"
  show "training_step ext self ge (Tuple [U, L]) =
      training_step ext (self\<lparr>hp_dataset := Some d'\<rparr>) ge U"
    using hp [unfolded s] off s' by (rule training_step_dual_without_probe)
  show "validation_step ext self ge (Tuple [U, L]) =
      validation_step ext (self\<lparr>hp_dataset := Some d'\<rparr>) ge U"
    using hp [unfolded s] off s' by (rule validation_step_dual_without_probe)
next
  fix t :: "'a tensor" and yy
  assume s: "d = ''stl10''" and l: "length (shape t) = 5"
  show "training_step ext self ge (Tuple [Tensor t, yy]) = Inl ValueError"
    using hp [unfolded s] l by (rule training_step_single_batch_dual_flag)
  show "validation_step ext self ge (Tuple [Tensor t, yy]) = Inl ValueError"
    using hp [unfolded s] l by (rule validation_step_single_batch_dual_flag)
next
  assume s: "d \<noteq> ''stl10''" and fu: "forward self ge img_u = Inr (Zu, cu)"
    and nu: "call_info_nce self ge Zu = Inr nce_loss" and on: "online_evaluator self"
    and tl: "forward self False img_u = Inr (Zl, cl)" "size_at Zl 0 = Inr b0"
      "view (detach Zl) [int b0, - 1] = Inr z_in"
      "call_non_linear_evaluator self ge z_in = Inr mlp_preds"
      "call_cross_entropy ext ge mlp_preds y_u = Inr mlp_loss"
  show "training_step ext self ge (Tuple [img_u, y_u]) =
            Inr (\<lparr>loss = add_scalars ge nce_loss mlp_loss,
                  log_dict = [''train_nce_loss'' \<mapsto> nce_loss, ''train_mlp_loss'' \<mapsto> mlp_loss]\<rparr>,
                 cu @ cl)"
    by (rule training_step_with_probe [OF hp _ _ _ fu nu on _ tl,
          where labeled_batch = "Tuple [img_u, y_u]" and ?batch1.0 = "Tuple [img_u, y_u]"
            and y = y_u])
       (simp_all add: s)
next
  assume s: "d \<noteq> ''stl10''" and fu: "forward self ge img_u = Inr (Zu, cu)"
    and nu: "call_info_nce self ge Zu = Inr nce_loss" and on: "online_evaluator self"
    and vl: "size_at Zu 0 = Inr bv"
      "view Zu [int bv, - 1] = Inr zv" "call_non_linear_evaluator self ge zv = Inr pv"
      "call_cross_entropy ext ge pv y_u = Inr lv" "call_accuracy ext pv y_u = Inr av"
  have "validation_step ext self ge (Tuple [img_u, y_u]) =
            Inr ([''val_nce'' \<mapsto> nce_loss, ''mlp_acc'' \<mapsto> av, ''mlp_loss'' \<mapsto> lv], cu @ [])"
    by (rule validation_step_with_probe [OF hp _ _ _ fu nu on _ vl,
          where labeled_batch = "Tuple [img_u, y_u]" and ?batch1.0 = "Tuple [img_u, y_u]"
            and y = y_u])
       (simp_all add: s)
  then show "validation_step ext self ge (Tuple [img_u, y_u]) =
            Inr ([''val_nce'' \<mapsto> nce_loss, ''mlp_acc'' \<mapsto> av, ''mlp_loss'' \<mapsto> lv], cu)"
    by simp
next
  assume s: "d \<noteq> ''stl10''" and fu: "forward self ge img_u = Inr (Zu, cu)"
    and nu: "call_info_nce self ge Zu = Inr nce_loss" and off: "\<not> online_evaluator self"
  show "training_step ext self ge (Tuple [img_u, y_u]) =
      Inr (\<lparr>loss = nce_loss, log_dict = [''train_nce_loss'' \<mapsto> nce_loss]\<rparr>, cu)"
    by (rule training_step_without_probe [OF hp _ _ _ fu nu off,
          where labeled_batch = "Tuple [img_u, y_u]" and ?batch1.0 = "Tuple [img_u, y_u]"
            and y = y_u])
       (simp_all add: s)
  show "validation_step ext self ge (Tuple [img_u, y_u]) = Inr ([''val_nce'' \<mapsto> nce_loss], cu)"
    by (rule validation_step_without_probe [OF hp _ _ _ fu nu off,
          where labeled_batch = "Tuple [img_u, y_u]" and ?batch1.0 = "Tuple [img_u, y_u]"
            and y = y_u])
       (simp_all add: s)
next
  fix us ls :: "'a pyobj list"
  assume s: "d \<noteq> ''stl10''"
  show "training_step ext self ge (Tuple [Tuple us, Tuple ls]) = Inl AttributeError"
    using hp s by (rule training_step_dual_batch_single_flag)
  show "validation_step ext self ge (Tuple [Tuple us, Tuple ls]) = Inl AttributeError"
    using hp s by (rule validation_step_dual_batch_single_flag)
next
  fix d' and batch :: "'a pyobj"
  assume s: "d \<noteq> ''stl10''" and s': "d' \<noteq> ''stl10''"
  show "training_step ext (self\<lparr>hp_dataset := Some d'\<rparr>) ge batch = training_step ext self ge batch"
    using hp s s' by (rule training_step_other_flag)
  show "validation_step ext (self\<lparr>hp_dataset := Some d'\<rparr>) ge batch = validation_step ext self ge batch"
    using hp s s' by (rule validation_step_other_flag)
qed

subsection \<open>The steps on the small instance\<close>

lemma toy_forward_grad:
  "forward (toy_self (EncoderName ''cpc_encoder'') identity_net d on) True (Tensor unlabeled_images) =
     Inr (\<lparr>shape = [2, 1, 1, 1], data = [5, 7], grad_fn = encoder_history\<rparr>,
          [(True, \<lparr>shape = [2, 1, 1, 1], data = [5, 7], grad_fn = NoHistory\<rparr>)])"
  unfolding toy_self_def identity_net_def unlabeled_images_def encoder_history_def
  by code_simp

lemma toy_forward_grad_labeled:
  "forward (toy_self (EncoderName ''cpc_encoder'') identity_net d on) True (Tensor labeled_images) =
     Inr (\<lparr>shape = [2, 1, 1, 1], data = [1, 2], grad_fn = encoder_history\<rparr>,
          [(True, \<lparr>shape = [2, 1, 1, 1], data = [1, 2], grad_fn = NoHistory\<rparr>)])"
  unfolding toy_self_def identity_net_def labeled_images_def encoder_history_def
  by code_simp

lemma toy_forward_no_grad:
  "forward (toy_self (EncoderName ''cpc_encoder'') identity_net d on) False (Tensor labeled_images) =
     Inr (\<lparr>shape = [2, 1, 1, 1], data = [1, 2], grad_fn = NoHistory\<rparr>,
          [(False, \<lparr>shape = [2, 1, 1, 1], data = [1, 2], grad_fn = NoHistory\<rparr>)])"
  unfolding toy_self_def identity_net_def labeled_images_def
  by code_simp

lemma toy_info_nce:
  "call_info_nce (toy_self enc net d on) True \<lparr>shape = sh, data = xs, grad_fn = h\<rparr> =
     Inr \<lparr>val = sum_list xs, hist = track True ''info_nce'' [Parameters ''info_nce'', h]\<rparr>"
  by (simp add: call_info_nce_def toy_self_def)

lemma toy_non_linear_evaluator:
  "call_non_linear_evaluator (toy_self enc net d on) True z =
     Inr (z\<lparr>grad_fn := track True ''non_linear_evaluator''
                [Parameters ''non_linear_evaluator'', grad_fn z]\<rparr>)"
  by (simp add: call_non_linear_evaluator_def toy_self_def)

lemma toy_cross_entropy:
  "call_cross_entropy toy_externals True preds y =
     Inr \<lparr>val = sum_list (data preds), hist = track True ''cross_entropy'' [grad_fn preds]\<rparr>"
  by (simp add: call_cross_entropy_def toy_externals_def)

lemma toy_accuracy:
  "call_accuracy toy_externals preds y = Inr \<lparr>val = 1, hist = NoHistory\<rparr>"
  by (simp add: call_accuracy_def toy_externals_def)

lemma toy_training_step:
  "training_step toy_externals (toy_self (EncoderName ''cpc_encoder'') identity_net ''cifar10'' True)
      True (Tuple [Tensor labeled_images, Tensor two_labels]) =
   Inr (\<lparr>loss = add_scalars True
           \<lparr>val = 3, hist = Backward ''info_nce'' [Parameters ''info_nce'', encoder_history]\<rparr>
           \<lparr>val = 3, hist = Backward ''cross_entropy'' [probe_history]\<rparr>,
         log_dict =
           [''train_nce_loss'' \<mapsto> \<lparr>val = 3, hist = Backward ''info_nce'' [Parameters ''info_nce'', encoder_history]\<rparr>,
            ''train_mlp_loss'' \<mapsto> \<lparr>val = 3, hist = Backward ''cross_entropy'' [probe_history]\<rparr>]\<rparr>,
        [(True, \<lparr>shape = [2, 1, 1, 1], data = [1, 2], grad_fn = NoHistory\<rparr>)] @
        [(False, \<lparr>shape = [2, 1, 1, 1], data = [1, 2], grad_fn = NoHistory\<rparr>)])"
proof (rule training_step_with_probe)
  let ?self = "toy_self (EncoderName ''cpc_encoder'') identity_net ''cifar10'' True"
  let ?batch = "Tuple [Tensor labeled_images, Tensor two_labels]"
  show "hp_dataset ?self = Some ''cifar10''" by (simp add: toy_self_def)
  show "(if ''cifar10'' = ''stl10'' then getitem ?batch 1 else Inr ?batch) = Inr ?batch" by simp
  show "(if ''cifar10'' = ''stl10'' then getitem ?batch 0 else Inr ?batch) = Inr ?batch" by simp
  show "unpack2 ?batch = Inr (Tensor labeled_images, Tensor two_labels)" by simp
  show "forward ?self True (Tensor labeled_images) =
      Inr (\<lparr>shape = [2, 1, 1, 1], data = [1, 2], grad_fn = encoder_history\<rparr>,
           [(True, \<lparr>shape = [2, 1, 1, 1], data = [1, 2], grad_fn = NoHistory\<rparr>)])"
    by (rule toy_forward_grad_labeled)
  show "call_info_nce ?self True \<lparr>shape = [2, 1, 1, 1], data = [1, 2], grad_fn = encoder_history\<rparr> =
      Inr \<lparr>val = 3, hist = Backward ''info_nce'' [Parameters ''info_nce'', encoder_history]\<rparr>"
    by (simp add: toy_info_nce track_def)
  show "online_evaluator ?self" by (simp add: toy_self_def)
  show "(if ''cifar10'' = ''stl10'' then unpack2 ?batch else Inr (Tensor labeled_images, Tensor two_labels)) =
      Inr (Tensor labeled_images, Tensor two_labels)" by simp
  show "forward ?self False (Tensor labeled_images) =
      Inr (\<lparr>shape = [2, 1, 1, 1], data = [1, 2], grad_fn = NoHistory\<rparr>,
           [(False, \<lparr>shape = [2, 1, 1, 1], data = [1, 2], grad_fn = NoHistory\<rparr>)])"
    by (rule toy_forward_no_grad)
  show "size_at \<lparr>shape = [2, 1, 1, 1], data = [1, 2 :: int], grad_fn = NoHistory\<rparr> 0 = Inr 2"
    by (simp add: size_at_def)
  show "view (detach \<lparr>shape = [2, 1, 1, 1], data = [1, 2 :: int], grad_fn = NoHistory\<rparr>) [int 2, - 1] =
      Inr \<lparr>shape = [2, 1], data = [1, 2], grad_fn = NoHistory\<rparr>"
    by (simp add: detach_def view_def numel_def)
  show "call_non_linear_evaluator ?self True \<lparr>shape = [2, 1], data = [1, 2], grad_fn = NoHistory\<rparr> =
      Inr \<lparr>shape = [2, 1], data = [1, 2], grad_fn = probe_history\<rparr>"
    by (simp add: toy_non_linear_evaluator track_def probe_history_def)
  show "call_cross_entropy toy_externals True \<lparr>shape = [2, 1], data = [1, 2], grad_fn = probe_history\<rparr>
        (Tensor two_labels) =
      Inr \<lparr>val = 3, hist = Backward ''cross_entropy'' [probe_history]\<rparr>"
    by (simp add: toy_cross_entropy track_def probe_history_def)
qed

theorem probe_gradient_isolation_witness:
  "\<exists>r calls r' calls'.
     training_step toy_externals (toy_self (EncoderName ''cpc_encoder'') identity_net ''cifar10'' True)
       True (Tuple [Tensor labeled_images, Tensor two_labels]) = Inr (r, calls) \<and>
     training_step toy_externals
       ((toy_self (EncoderName ''cpc_encoder'') identity_net ''cifar10'' True)\<lparr>online_evaluator := False\<rparr>)
       True (Tuple [Tensor labeled_images, Tensor two_labels]) = Inr (r', calls') \<and>
     grad (\<lambda>f hs. map (\<lambda>h. 1) hs) ''encoder'' (hist (loss r)) = 1 \<and>
     grad (\<lambda>f hs. map (\<lambda>h. 1) hs) ''encoder'' (hist (loss r')) = 1 \<and>
     grad (\<lambda>f hs. map (\<lambda>h. 1) hs) ''non_linear_evaluator'' (hist (loss r)) = 1"
proof -
  let ?self = "toy_self (EncoderName ''cpc_encoder'') identity_net ''cifar10'' True"
  let ?batch = "Tuple [Tensor labeled_images, Tensor two_labels]"
  let ?d = "\<lambda>(f :: string) (hs :: history list). map (\<lambda>h. 1 :: real) hs"
  let ?nce = "\<lparr>val = 3 :: int, hist = Backward ''info_nce'' [Parameters ''info_nce'', encoder_history]\<rparr>"
  let ?mlp = "\<lparr>val = 3 :: int, hist = Backward ''cross_entropy'' [probe_history]\<rparr>"
  let ?r = "\<lparr>loss = add_scalars True ?nce ?mlp,
         log_dict = [''train_nce_loss'' \<mapsto> ?nce, ''train_mlp_loss'' \<mapsto> ?mlp]\<rparr>"
  have on: "online_evaluator ?self" by (simp add: toy_self_def)
  from probe_gradient_isolation [OF toy_training_step on]
  obtain nce_loss mlp_loss r' calls' where
    l: "log_dict ?r ''train_nce_loss'' = Some nce_loss"
    and g: "\<forall>d. grad d ''encoder'' (hist (loss ?r)) = grad d ''encoder'' (hist nce_loss)"
    and off: "training_step toy_externals (?self\<lparr>online_evaluator := False\<rparr>) True ?batch = Inr (r', calls')"
    and g': "\<forall>d. grad d ''encoder'' (hist (loss r')) = grad d ''encoder'' (hist (loss ?r))"
    by blast
  from l have n: "nce_loss = ?nce" by simp
  have v: "grad ?d ''encoder'' (hist ?nce) = 1" by (simp add: encoder_history_def)
  have g1: "grad ?d ''encoder'' (hist (loss ?r)) = 1" using g n v by simp
  have g2: "grad ?d ''encoder'' (hist (loss r')) = 1" using g' g1 by simp
  have g3: "grad ?d ''non_linear_evaluator'' (hist (loss ?r)) = 1"
    by (simp add: add_scalars_def track_def encoder_history_def probe_history_def)
  show ?thesis using toy_training_step off g1 g2 g3 by blast
qed

theorem training_step_combination_witness:
  "\<exists>r calls nce_loss mlp_loss x1 x2.
     training_step toy_externals (toy_self (EncoderName ''cpc_encoder'') identity_net ''cifar10'' True)
       True (Tuple [Tensor labeled_images, Tensor two_labels]) = Inr (r, calls) \<and>
     log_dict r ''train_nce_loss'' = Some nce_loss \<and> val nce_loss = 3 \<and>
     log_dict r ''train_mlp_loss'' = Some mlp_loss \<and> val mlp_loss = 3 \<and>
     val (loss r) = val nce_loss + val mlp_loss \<and> val (loss r) = 6 \<and>
     calls = [(True, x1), (False, x2)]"
proof -
  let ?self = "toy_self (EncoderName ''cpc_encoder'') identity_net ''cifar10'' True"
  let ?nce = "\<lparr>val = 3 :: int, hist = Backward ''info_nce'' [Parameters ''info_nce'', encoder_history]\<rparr>"
  let ?mlp = "\<lparr>val = 3 :: int, hist = Backward ''cross_entropy'' [probe_history]\<rparr>"
  let ?r = "\<lparr>loss = add_scalars True ?nce ?mlp,
         log_dict = [''train_nce_loss'' \<mapsto> ?nce, ''train_mlp_loss'' \<mapsto> ?mlp]\<rparr>"
  let ?calls = "[(True, \<lparr>shape = [2, 1, 1, 1], data = [1, 2 :: int], grad_fn = NoHistory\<rparr>)] @
        [(False, \<lparr>shape = [2, 1, 1, 1], data = [1, 2], grad_fn = NoHistory\<rparr>)]"
  have on: "online_evaluator ?self" by (simp add: toy_self_def)
  from training_step_combination [OF toy_training_step, unfolded if_P [OF on]]
  obtain nce_loss mlp_loss x1 x2 where
    l1: "log_dict ?r ''train_nce_loss'' = Some nce_loss"
    and l2: "log_dict ?r ''train_mlp_loss'' = Some mlp_loss"
    and s: "val (loss ?r) = val nce_loss + val mlp_loss"
    and c: "?calls = [(True, x1), (False, x2)]"
    by blast
  from l1 have n: "val nce_loss = 3" by auto
  from l2 have m: "val mlp_loss = 3" by auto
  have t: "val (loss ?r) = 6" by (simp add: add_scalars_def)
  show ?thesis using toy_training_step l1 l2 n m s t c by blast
qed

theorem steps_branch_on_dataset_flag_witness:
  "\<exists>r calls res calls'.
     training_step toy_externals (toy_self (EncoderName ''cpc_encoder'') identity_net ''stl10'' True) True
       (Tuple [Tuple [Tensor unlabeled_images, Tensor two_labels],
               Tuple [Tensor labeled_images, Tensor two_labels]]) = Inr (r, calls) \<and>
     map_option val (log_dict r ''train_nce_loss'') = Some 12 \<and>
     map_option val (log_dict r ''train_mlp_loss'') = Some 3 \<and>
     val (loss r) = 15 \<and>
     validation_step toy_externals (toy_self (EncoderName ''cpc_encoder'') identity_net ''stl10'' True) True
       (Tuple [Tuple [Tensor unlabeled_images, Tensor two_labels],
               Tuple [Tensor labeled_images, Tensor two_labels]]) = Inr (res, calls') \<and>
     map_option val (res ''val_nce'') = Some 12 \<and>
     map_option val (res ''mlp_loss'') = Some 3 \<and>
     training_step toy_externals (toy_self (EncoderName ''cpc_encoder'') identity_net ''stl10'' True) True
       (Tuple [Tensor unlabeled_images, Tensor two_labels]) = Inl ValueError \<and>
     training_step toy_externals (toy_self (EncoderName ''cpc_encoder'') identity_net ''stl10'' False) True
       (Tuple [Tuple [Tensor unlabeled_images, Tensor two_labels],
               Tuple [Tensor labeled_images, Tensor two_labels]]) =
       Inr (\<lparr>loss = \<lparr>val = 12, hist = Backward ''info_nce'' [Parameters ''info_nce'', encoder_history]\<rparr>,
             log_dict = [''train_nce_loss'' \<mapsto>
               \<lparr>val = 12, hist = Backward ''info_nce'' [Parameters ''info_nce'', encoder_history]\<rparr>]\<rparr>,
            [(True, \<lparr>shape = [2, 1, 1, 1], data = [5, 7], grad_fn = NoHistory\<rparr>)]) \<and>
     training_step toy_externals (toy_self (EncoderName ''cpc_encoder'') identity_net ''cifar10'' False) True
       (Tuple [Tensor unlabeled_images, Tensor two_labels]) =
       Inr (\<lparr>loss = \<lparr>val = 12, hist = Backward ''info_nce'' [Parameters ''info_nce'', encoder_history]\<rparr>,
             log_dict = [''train_nce_loss'' \<mapsto>
               \<lparr>val = 12, hist = Backward ''info_nce'' [Parameters ''info_nce'', encoder_history]\<rparr>]\<rparr>,
            [(True, \<lparr>shape = [2, 1, 1, 1], data = [5, 7], grad_fn = NoHistory\<rparr>)])"
proof -
  let ?self = "toy_self (EncoderName ''cpc_encoder'') identity_net ''stl10'' True"
  let ?dual = "Tuple [Tuple [Tensor unlabeled_images, Tensor two_labels],
               Tuple [Tensor labeled_images, Tensor two_labels]]"
  let ?nce = "\<lparr>val = 12 :: int, hist = Backward ''info_nce'' [Parameters ''info_nce'', encoder_history]\<rparr>"
  let ?mlp = "\<lparr>val = 3 :: int, hist = Backward ''cross_entropy'' [probe_history]\<rparr>"
  let ?vh = "Backward ''non_linear_evaluator'' [Parameters ''non_linear_evaluator'', encoder_history]"
  let ?lv = "\<lparr>val = 3 :: int, hist = Backward ''cross_entropy'' [?vh]\<rparr>"
  let ?av = "\<lparr>val = 1 :: int, hist = NoHistory\<rparr>"
  let ?cu = "[(True, \<lparr>shape = [2, 1, 1, 1], data = [5, 7 :: int], grad_fn = NoHistory\<rparr>)]"
  let ?cl = "[(False, \<lparr>shape = [2, 1, 1, 1], data = [1, 2 :: int], grad_fn = NoHistory\<rparr>)]"
  let ?cv = "[(True, \<lparr>shape = [2, 1, 1, 1], data = [1, 2 :: int], grad_fn = NoHistory\<rparr>)]"
  have a1: "hp_dataset ?self = Some ''stl10''" by (simp add: toy_self_def)
  have a2: "online_evaluator ?self" by (simp add: toy_self_def)
  have a3: "forward ?self True (Tensor unlabeled_images) =
      Inr (\<lparr>shape = [2, 1, 1, 1], data = [5, 7], grad_fn = encoder_history\<rparr>, ?cu)"
    by (rule toy_forward_grad)
  have a4: "call_info_nce ?self True \<lparr>shape = [2, 1, 1, 1], data = [5, 7], grad_fn = encoder_history\<rparr> =
      Inr ?nce"
    by (simp add: toy_info_nce track_def)
  have t1: "forward ?self False (Tensor labeled_images) =
      Inr (\<lparr>shape = [2, 1, 1, 1], data = [1, 2], grad_fn = NoHistory\<rparr>, ?cl)"
    by (rule toy_forward_no_grad)
  have t2: "size_at \<lparr>shape = [2, 1, 1, 1], data = [1, 2 :: int], grad_fn = NoHistory\<rparr> 0 = Inr 2"
    by (simp add: size_at_def)
  have t3: "view (detach \<lparr>shape = [2, 1, 1, 1], data = [1, 2 :: int], grad_fn = NoHistory\<rparr>) [int 2, - 1] =
      Inr \<lparr>shape = [2, 1], data = [1, 2], grad_fn = NoHistory\<rparr>"
    by (simp add: detach_def view_def numel_def)
  have t4: "call_non_linear_evaluator ?self True \<lparr>shape = [2, 1], data = [1, 2], grad_fn = NoHistory\<rparr> =
      Inr \<lparr>shape = [2, 1], data = [1, 2], grad_fn = probe_history\<rparr>"
    by (simp add: toy_non_linear_evaluator track_def probe_history_def)
  have t5: "call_cross_entropy toy_externals True \<lparr>shape = [2, 1], data = [1, 2], grad_fn = probe_history\<rparr>
        (Tensor two_labels) = Inr ?mlp"
    by (simp add: toy_cross_entropy track_def probe_history_def)
  have v1: "forward ?self True (Tensor labeled_images) =
      Inr (\<lparr>shape = [2, 1, 1, 1], data = [1, 2], grad_fn = encoder_history\<rparr>, ?cv)"
    by (rule toy_forward_grad_labeled)
  have v2: "size_at \<lparr>shape = [2, 1, 1, 1], data = [1, 2 :: int], grad_fn = encoder_history\<rparr> 0 = Inr 2"
    by (simp add: size_at_def)
  have v3: "view \<lparr>shape = [2, 1, 1, 1], data = [1, 2 :: int], grad_fn = encoder_history\<rparr> [int 2, - 1] =
      Inr \<lparr>shape = [2, 1], data = [1, 2], grad_fn = encoder_history\<rparr>"
    by (simp add: view_def numel_def)
  have v4: "call_non_linear_evaluator ?self True \<lparr>shape = [2, 1], data = [1, 2], grad_fn = encoder_history\<rparr> =
      Inr \<lparr>shape = [2, 1], data = [1, 2], grad_fn = ?vh\<rparr>"
    by (simp add: toy_non_linear_evaluator track_def encoder_history_def)
  have v5: "call_cross_entropy toy_externals True \<lparr>shape = [2, 1], data = [1, 2], grad_fn = ?vh\<rparr>
        (Tensor two_labels) = Inr ?lv"
    by (simp add: toy_cross_entropy track_def)
  have v6: "call_accuracy toy_externals \<lparr>shape = [2, 1], data = [1, 2], grad_fn = ?vh\<rparr>
        (Tensor two_labels) = Inr ?av"
    by (simp add: toy_accuracy)
  note th = steps_branch_on_dataset_flag [OF a1, where ge = True and ext = toy_externals
      and img_u = "Tensor unlabeled_images" and y_u = "Tensor two_labels"
      and img_l = "Tensor labeled_images" and y_l = "Tensor two_labels"]
  note dual = th [THEN conjunct1, THEN mp, OF refl]
  note fed = dual [THEN conjunct1, THEN mp, OF conjI [OF a3 a4]]
  have tr: "training_step toy_externals ?self True ?dual =
      Inr (\<lparr>loss = add_scalars True ?nce ?mlp,
            log_dict = [''train_nce_loss'' \<mapsto> ?nce, ''train_mlp_loss'' \<mapsto> ?mlp]\<rparr>, ?cu @ ?cl)"
    by (rule fed [THEN conjunct1, THEN mp,
          OF conjI [OF a2 conjI [OF t1 conjI [OF t2 conjI [OF t3 conjI [OF t4 t5]]]]]])
  have va: "validation_step toy_externals ?self True ?dual =
      Inr ([''val_nce'' \<mapsto> ?nce, ''mlp_acc'' \<mapsto> ?av, ''mlp_loss'' \<mapsto> ?lv], ?cu @ ?cv)"
    by (rule fed [THEN conjunct2, THEN conjunct1, THEN mp,
          OF conjI [OF a2 conjI [OF v1 conjI [OF v2 conjI [OF v3 conjI [OF v4 conjI [OF v5 v6]]]]]]])
  have five: "length (shape unlabeled_images) = 5" by (simp add: unlabeled_images_def)
  have mm: "training_step toy_externals ?self True
       (Tuple [Tensor unlabeled_images, Tensor two_labels]) = Inl ValueError"
    by (rule dual [THEN conjunct2, THEN conjunct2, THEN spec, THEN spec, THEN mp, THEN conjunct1])
       (rule five)
  let ?r = "\<lparr>loss = add_scalars True ?nce ?mlp,
            log_dict = [''train_nce_loss'' \<mapsto> ?nce, ''train_mlp_loss'' \<mapsto> ?mlp]\<rparr>"
  let ?res = "[''val_nce'' \<mapsto> ?nce, ''mlp_acc'' \<mapsto> ?av, ''mlp_loss'' \<mapsto> ?lv]"
  have p1: "map_option val (log_dict ?r ''train_nce_loss'') = Some 12" by simp
  have p2: "map_option val (log_dict ?r ''train_mlp_loss'') = Some 3" by simp
  have p3: "val (loss ?r) = 15" by (simp add: add_scalars_def)
  have p4: "map_option val (?res ''val_nce'') = Some 12" by simp
  have p5: "map_option val (?res ''mlp_loss'') = Some 3" by simp
  let ?off = "toy_self (EncoderName ''cpc_encoder'') identity_net ''stl10'' False"
  let ?other = "toy_self (EncoderName ''cpc_encoder'') identity_net ''cifar10'' False"
  let ?Zu = "\<lparr>shape = [2, 1, 1, 1], data = [5, 7 :: int], grad_fn = encoder_history\<rparr>"
  let ?r_off = "\<lparr>loss = ?nce, log_dict = [''train_nce_loss'' \<mapsto> ?nce]\<rparr>"
  have b1: "hp_dataset ?off = Some ''stl10''" by (simp add: toy_self_def)
  have b2: "\<not> online_evaluator ?off" by (simp add: toy_self_def)
  have b3: "forward ?off True (Tensor unlabeled_images) = Inr (?Zu, ?cu)"
    by (rule toy_forward_grad)
  have b4: "call_info_nce ?off True ?Zu = Inr ?nce"
    by (simp add: toy_info_nce track_def)
  note th_off = steps_branch_on_dataset_flag [OF b1, where ge = True and ext = toy_externals
      and img_u = "Tensor unlabeled_images" and y_u = "Tensor two_labels"]
  have off: "training_step toy_externals ?off True ?dual = Inr (?r_off, ?cu)"
    by (rule th_off [THEN conjunct1, THEN mp, OF refl, THEN conjunct1, THEN mp, OF conjI [OF b3 b4],
          THEN conjunct2, THEN conjunct2, THEN mp, OF b2, THEN spec, THEN conjunct1])
  have c1: "hp_dataset ?other = Some ''cifar10''" by (simp add: toy_self_def)
  have c2: "\<not> online_evaluator ?other" by (simp add: toy_self_def)
  have c3: "forward ?other True (Tensor unlabeled_images) = Inr (?Zu, ?cu)"
    by (rule toy_forward_grad)
  have c4: "call_info_nce ?other True ?Zu = Inr ?nce"
    by (simp add: toy_info_nce track_def)
  have c5: "''cifar10'' \<noteq> ''stl10''" by simp
  note th_other = steps_branch_on_dataset_flag [OF c1, where ge = True and ext = toy_externals
      and img_u = "Tensor unlabeled_images" and y_u = "Tensor two_labels"]
  have other: "training_step toy_externals ?other True
      (Tuple [Tensor unlabeled_images, Tensor two_labels]) = Inr (?r_off, ?cu)"
    by (rule th_other [THEN conjunct2, THEN mp, OF c5, THEN conjunct1, THEN mp, OF conjI [OF c3 c4],
          THEN conjunct2, THEN conjunct2, THEN mp, OF c2, THEN conjunct1])
  show ?thesis
    using tr va mm p1 p2 p3 p4 p5 off other by blast
qed

end
